theory Spec2Isabelle
  imports Main "HOL-Library.Word" "HOL-Library.Sublist"
begin

section \<open>Styles (ansi/style.go)\<close>

text \<open>
  Go's \<open>uint\<close> on a 64-bit platform. A pointer field of the Go struct (\<open>*string\<close>,
  \<open>*bool\<close>, \<open>*uint\<close>) is an \<open>option\<close>: \<open>nil\<close> is \<open>None\<close>. Go strings are byte
  sequences, here \<open>string\<close>.
\<close>

type_synonym uint = "64 word"

record StylePrimitive =
  BlockPrefix :: string
  BlockSuffix :: string
  Prefix :: string
  PrefixColor :: "string option"
  Suffix :: string
  Color :: "string option"
  BackgroundColor :: "string option"
  Underline :: "bool option"
  Bold :: "bool option"
  Upper :: "bool option"
  Lower :: "bool option"
  Title :: "bool option"
  Italic :: "bool option"
  CrossedOut :: "bool option"
  Faint :: "bool option"
  Conceal :: "bool option"
  Overlined :: "bool option"
  Inverse :: "bool option"
  Blink :: "bool option"
  Format :: string
  KittyScale :: "uint option"
  KittyWidth :: "uint option"
  KittyNumerator :: "uint option"
  KittyDenominator :: "uint option"
  KittyVAlign :: "uint option"
  KittyHAlign :: "uint option"

record StyleBlock =
  StylePrimitive :: StylePrimitive
  Indent :: "uint option"
  IndentToken :: "string option"
  Margin :: "uint option"

text \<open>
  \<open>cascadeStylePrimitive\<close>, in the three groups of statements of the Go function, which
  works on its own copy \<open>s\<close> of \<open>child\<close> (structs are passed by value): the model
  returns the new record and leaves both arguments as they are.

  Lines 170 to 191: the decorations, colours, transforms and scaling fields are taken
  from the parent.
\<close>

definition inheritAttributes :: "StylePrimitive \<Rightarrow> StylePrimitive \<Rightarrow> StylePrimitive" where
  "inheritAttributes parent s =
    s\<lparr>Color := Color parent,
       BackgroundColor := BackgroundColor parent,
       Underline := Underline parent,
       Bold := Bold parent,
       Upper := Upper parent,
       Title := Title parent,
       Lower := Lower parent,
       Italic := Italic parent,
       CrossedOut := CrossedOut parent,
       Faint := Faint parent,
       Conceal := Conceal parent,
       Overlined := Overlined parent,
       Inverse := Inverse parent,
       Blink := Blink parent,
       KittyScale := KittyScale parent,
       KittyWidth := KittyWidth parent,
       KittyNumerator := KittyNumerator parent,
       KittyDenominator := KittyDenominator parent,
       KittyVAlign := KittyVAlign parent,
       KittyHAlign := KittyHAlign parent\<rparr>"

text \<open>Lines 193 to 198, the body of \<open>if toBlock\<close>: the framing texts are taken from the parent.\<close>

definition inheritFraming :: "StylePrimitive \<Rightarrow> StylePrimitive \<Rightarrow> StylePrimitive" where
  "inheritFraming parent s =
    s\<lparr>BlockPrefix := BlockPrefix parent,
       BlockSuffix := BlockSuffix parent,
       Prefix := Prefix parent,
       Suffix := Suffix parent\<rparr>"

text \<open>
  Lines 200 to 276: every guarded assignment \<open>if child.F != nil { s.F = child.F }\<close>
  (for a string field \<open>if child.F != "" { ... }\<close>) is the update of \<open>F\<close> to the
  child's value when the guard holds and to the old \<open>F s\<close> otherwise. Each statement
  reads and writes its own field only.
\<close>

definition childOverrides :: "StylePrimitive \<Rightarrow> StylePrimitive \<Rightarrow> StylePrimitive" where
  "childOverrides child s =
    s\<lparr>Color := (if Color child \<noteq> None then Color child else Color s),
       BackgroundColor := (if BackgroundColor child \<noteq> None then BackgroundColor child else BackgroundColor s),
       Underline := (if Underline child \<noteq> None then Underline child else Underline s),
       Bold := (if Bold child \<noteq> None then Bold child else Bold s),
       Upper := (if Upper child \<noteq> None then Upper child else Upper s),
       Lower := (if Lower child \<noteq> None then Lower child else Lower s),
       Title := (if Title child \<noteq> None then Title child else Title s),
       Italic := (if Italic child \<noteq> None then Italic child else Italic s),
       CrossedOut := (if CrossedOut child \<noteq> None then CrossedOut child else CrossedOut s),
       Faint := (if Faint child \<noteq> None then Faint child else Faint s),
       Conceal := (if Conceal child \<noteq> None then Conceal child else Conceal s),
       Overlined := (if Overlined child \<noteq> None then Overlined child else Overlined s),
       Inverse := (if Inverse child \<noteq> None then Inverse child else Inverse s),
       Blink := (if Blink child \<noteq> None then Blink child else Blink s),
       BlockPrefix := (if BlockPrefix child \<noteq> [] then BlockPrefix child else BlockPrefix s),
       BlockSuffix := (if BlockSuffix child \<noteq> [] then BlockSuffix child else BlockSuffix s),
       Prefix := (if Prefix child \<noteq> [] then Prefix child else Prefix s),
       Suffix := (if Suffix child \<noteq> [] then Suffix child else Suffix s),
       Format := (if Format child \<noteq> [] then Format child else Format s),
       KittyScale := (if KittyScale child \<noteq> None then KittyScale child else KittyScale s),
       KittyWidth := (if KittyWidth child \<noteq> None then KittyWidth child else KittyWidth s),
       KittyNumerator := (if KittyNumerator child \<noteq> None then KittyNumerator child else KittyNumerator s),
       KittyDenominator := (if KittyDenominator child \<noteq> None then KittyDenominator child else KittyDenominator s),
       KittyVAlign := (if KittyVAlign child \<noteq> None then KittyVAlign child else KittyVAlign s),
       KittyHAlign := (if KittyHAlign child \<noteq> None then KittyHAlign child else KittyHAlign s)\<rparr>"

definition cascadeStylePrimitive :: "StylePrimitive \<Rightarrow> StylePrimitive \<Rightarrow> bool \<Rightarrow> StylePrimitive" where
  "cascadeStylePrimitive parent child toBlock =
    (let s = child;
         s = inheritAttributes parent s;
         s = (if toBlock then inheritFraming parent s else s)
     in childOverrides child s)"

text \<open>The value an optional attribute resolves to: the child's when set, else the parent's.\<close>

definition inherit :: "'a option \<Rightarrow> 'a option \<Rightarrow> 'a option" where
  "inherit p c = (case c of None \<Rightarrow> p | Some v \<Rightarrow> Some v)"

lemmas cascade_defs =
  cascadeStylePrimitive_def Let_def childOverrides_def inheritFraming_def inheritAttributes_def

text \<open>One field at a time: the selector reduces through the updates of the other fields.\<close>

lemma cascade_Color:
  "Color (cascadeStylePrimitive parent child toBlock) = inherit (Color parent) (Color child)"
  by (simp add: cascade_defs inherit_def split: option.split)

lemma cascade_BackgroundColor:
  "BackgroundColor (cascadeStylePrimitive parent child toBlock) = inherit (BackgroundColor parent) (BackgroundColor child)"
  by (simp add: cascade_defs inherit_def split: option.split)

lemma cascade_Bold:
  "Bold (cascadeStylePrimitive parent child toBlock) = inherit (Bold parent) (Bold child)"
  by (simp add: cascade_defs inherit_def split: option.split)

lemma cascade_Italic:
  "Italic (cascadeStylePrimitive parent child toBlock) = inherit (Italic parent) (Italic child)"
  by (simp add: cascade_defs inherit_def split: option.split)

lemma cascade_Underline:
  "Underline (cascadeStylePrimitive parent child toBlock) = inherit (Underline parent) (Underline child)"
  by (simp add: cascade_defs inherit_def split: option.split)

lemma cascade_CrossedOut:
  "CrossedOut (cascadeStylePrimitive parent child toBlock) = inherit (CrossedOut parent) (CrossedOut child)"
  by (simp add: cascade_defs inherit_def split: option.split)

lemma cascade_Overlined:
  "Overlined (cascadeStylePrimitive parent child toBlock) = inherit (Overlined parent) (Overlined child)"
  by (simp add: cascade_defs inherit_def split: option.split)

lemma cascade_Inverse:
  "Inverse (cascadeStylePrimitive parent child toBlock) = inherit (Inverse parent) (Inverse child)"
  by (simp add: cascade_defs inherit_def split: option.split)

lemma cascade_Blink:
  "Blink (cascadeStylePrimitive parent child toBlock) = inherit (Blink parent) (Blink child)"
  by (simp add: cascade_defs inherit_def split: option.split)

lemma cascade_Faint:
  "Faint (cascadeStylePrimitive parent child toBlock) = inherit (Faint parent) (Faint child)"
  by (simp add: cascade_defs inherit_def split: option.split)

lemma cascade_Conceal:
  "Conceal (cascadeStylePrimitive parent child toBlock) = inherit (Conceal parent) (Conceal child)"
  by (simp add: cascade_defs inherit_def split: option.split)

lemma cascade_Upper:
  "Upper (cascadeStylePrimitive parent child toBlock) = inherit (Upper parent) (Upper child)"
  by (simp add: cascade_defs inherit_def split: option.split)

lemma cascade_Lower:
  "Lower (cascadeStylePrimitive parent child toBlock) = inherit (Lower parent) (Lower child)"
  by (simp add: cascade_defs inherit_def split: option.split)

lemma cascade_Title:
  "Title (cascadeStylePrimitive parent child toBlock) = inherit (Title parent) (Title child)"
  by (simp add: cascade_defs inherit_def split: option.split)

lemma cascade_KittyScale:
  "KittyScale (cascadeStylePrimitive parent child toBlock) = inherit (KittyScale parent) (KittyScale child)"
  by (simp add: cascade_defs inherit_def split: option.split)

lemma cascade_KittyWidth:
  "KittyWidth (cascadeStylePrimitive parent child toBlock) = inherit (KittyWidth parent) (KittyWidth child)"
  by (simp add: cascade_defs inherit_def split: option.split)

lemma cascade_KittyNumerator:
  "KittyNumerator (cascadeStylePrimitive parent child toBlock) = inherit (KittyNumerator parent) (KittyNumerator child)"
  by (simp add: cascade_defs inherit_def split: option.split)

lemma cascade_KittyDenominator:
  "KittyDenominator (cascadeStylePrimitive parent child toBlock) = inherit (KittyDenominator parent) (KittyDenominator child)"
  by (simp add: cascade_defs inherit_def split: option.split)

lemma cascade_KittyVAlign:
  "KittyVAlign (cascadeStylePrimitive parent child toBlock) = inherit (KittyVAlign parent) (KittyVAlign child)"
  by (simp add: cascade_defs inherit_def split: option.split)

lemma cascade_KittyHAlign:
  "KittyHAlign (cascadeStylePrimitive parent child toBlock) = inherit (KittyHAlign parent) (KittyHAlign child)"
  by (simp add: cascade_defs inherit_def split: option.split)

section \<open>Go library functions the code calls\<close>

text \<open>
  Errors are values. \<open>error\<close> lists the error values the modelled functions return;
  \<open>panic\<close> is the Go runtime panic of a slice expression \<open>s[lo:hi]\<close> with
  \<open>lo > hi\<close>.
\<close>

datatype error =
  CorruptInputError
  | ErrTimeout
  | ErrRead
  | ErrRawMode
  | ErrTemplate
  | ErrWrite
  | Wrapped string error

datatype panic = SliceBoundsOutOfRange nat nat

text \<open>
  \<open>strings.Index(s, substr)\<close>: the index of the first occurrence of \<open>substr\<close> in
  \<open>s\<close>; Go's \<open>-1\<close> is \<open>None\<close>.
\<close>

fun strings_Index :: "string \<Rightarrow> string \<Rightarrow> nat option" where
  "strings_Index [] substr = (if substr = [] then Some 0 else None)"
| "strings_Index (c # cs) substr =
     (if prefix substr (c # cs) then Some 0 else map_option Suc (strings_Index cs substr))"

text \<open>
  \<open>encoding/base64\<close>, \<open>StdEncoding\<close>: the alphabet of RFC 4648 with \<open>=\<close> padding.
  Encoding maps each group of three bytes to four sextets and pads a last group of one
  or two bytes. \<open>DecodeString\<close> ignores carriage returns and line feeds, wants whole
  quanta of four characters, accepts padding only at the very end, and (the encoding not
  being strict) does not look at the unused low bits of a padded quantum; anything else
  is a \<open>CorruptInputError\<close>.
\<close>

definition encodeStd :: string where
  "encodeStd = ''ABCDEFGHIJKLMNOPQRSTUVWXYZabcdefghijklmnopqrstuvwxyz0123456789+/''"

definition encodeChar :: "nat \<Rightarrow> char" where
  "encodeChar v = encodeStd ! (v mod 64)"

fun index_of :: "char \<Rightarrow> string \<Rightarrow> nat \<Rightarrow> nat option" where
  "index_of c [] n = None"
| "index_of c (x # xs) n = (if c = x then Some n else index_of c xs (Suc n))"

definition decodeMap :: "char \<Rightarrow> nat option" where
  "decodeMap c = index_of c encodeStd 0"

definition padChar :: char where
  "padChar = CHR ''=''"

fun base64_EncodeToString :: "string \<Rightarrow> string" where
  "base64_EncodeToString (b0 # b1 # b2 # rest) =
     (let a = of_char b0; b = of_char b1; c = of_char b2 in
        encodeChar (a div 4) # encodeChar (a mod 4 * 16 + b div 16) #
        encodeChar (b mod 16 * 4 + c div 64) # encodeChar (c mod 64) #
        base64_EncodeToString rest)"
| "base64_EncodeToString [b0, b1] =
     (let a = of_char b0; b = of_char b1 in
        [encodeChar (a div 4), encodeChar (a mod 4 * 16 + b div 16),
         encodeChar (b mod 16 * 4), padChar])"
| "base64_EncodeToString [b0] =
     (let a = of_char b0 in
        [encodeChar (a div 4), encodeChar (a mod 4 * 16), padChar, padChar])"
| "base64_EncodeToString [] = []"

fun decodeQuanta :: "string \<Rightarrow> error + string" where
  "decodeQuanta [] = Inr []"
| "decodeQuanta (c0 # c1 # c2 # c3 # rest) =
     (case decodeMap c0 of
        None \<Rightarrow> Inl CorruptInputError
      | Some v0 \<Rightarrow>
     (case decodeMap c1 of
        None \<Rightarrow> Inl CorruptInputError
      | Some v1 \<Rightarrow>
     (case decodeMap c2 of
        None \<Rightarrow>
          if c2 = padChar \<and> c3 = padChar \<and> rest = []
          then Inr [char_of (v0 * 4 + v1 div 16)]
          else Inl CorruptInputError
      | Some v2 \<Rightarrow>
     (case decodeMap c3 of
        None \<Rightarrow>
          if c3 = padChar \<and> rest = []
          then Inr [char_of (v0 * 4 + v1 div 16), char_of (v1 mod 16 * 16 + v2 div 4)]
          else Inl CorruptInputError
      | Some v3 \<Rightarrow>
     (case decodeQuanta rest of
        Inl e \<Rightarrow> Inl e
      | Inr bs \<Rightarrow>
          Inr (char_of (v0 * 4 + v1 div 16) #
               char_of (v1 mod 16 * 16 + v2 div 4) #
               char_of (v2 mod 4 * 64 + v3) # bs))))))"
| "decodeQuanta _ = Inl CorruptInputError"

definition base64_DecodeString :: "string \<Rightarrow> error + string" where
  "base64_DecodeString s = decodeQuanta (filter (\<lambda>c. c \<noteq> CHR 0x0A \<and> c \<noteq> CHR 0x0D) s)"

section \<open>Text sizing markers (ansi/kitty\_text\_sizing.go)\<close>

text \<open>\<open>base64Encode\<close> and \<open>base64Decode\<close>, lines 404 to 415.\<close>

definition base64Encode :: "string \<Rightarrow> string" where
  "base64Encode s = base64_EncodeToString s"

definition base64Decode :: "string \<Rightarrow> error + string" where
  "base64Decode s = (case base64_DecodeString s of Inl err \<Rightarrow> Inl err | Inr b \<Rightarrow> Inr b)"


subsection \<open>The base64 round trip\<close>

lemma encodeStd_length: "length encodeStd = 64"
  unfolding encodeStd_def by simp

lemma encodeStd_distinct: "distinct encodeStd"
  unfolding encodeStd_def by simp

lemma encodeStd_excludes:
  "CHR ''='' \<notin> set encodeStd" "CHR '':'' \<notin> set encodeStd" "CHR ''_'' \<notin> set encodeStd"
  "CHR 0x0A \<notin> set encodeStd" "CHR 0x0D \<notin> set encodeStd"
  unfolding encodeStd_def by simp_all

lemma encodeChar_mem: "encodeChar v \<in> set encodeStd"
  by (simp add: encodeChar_def encodeStd_length)

lemma index_of_nth: "distinct xs \<Longrightarrow> i < length xs \<Longrightarrow> index_of (xs ! i) xs n = Some (n + i)"
proof (induction xs arbitrary: i n)
  case Nil
  then show ?case by simp
next
  case (Cons x xs)
  show ?case
  proof (cases i)
    case 0
    then show ?thesis by simp
  next
    case (Suc j)
    with Cons.prems have "xs ! j \<noteq> x" "j < length xs" "distinct xs" by auto
    with Cons.IH [of j "Suc n"] Suc show ?thesis by simp
  qed
qed

lemma index_of_None: "c \<notin> set xs \<Longrightarrow> index_of c xs n = None"
  by (induction xs arbitrary: n) auto

lemma decodeMap_encodeChar: "v < 64 \<Longrightarrow> decodeMap (encodeChar v) = Some v"
  using index_of_nth [OF encodeStd_distinct, of v 0]
  by (simp add: decodeMap_def encodeChar_def encodeStd_length)

lemma decodeMap_padChar: "decodeMap padChar = None"
  by (simp add: decodeMap_def padChar_def index_of_None encodeStd_excludes)

lemma of_char_bound: "(of_char c :: nat) < 256"
proof -
  have "(of_char c :: nat) mod 256 < 256" by simp
  then show ?thesis by simp
qed

lemma sextet_bounds:
  fixes a b c :: nat
  assumes "a < 256" "b < 256" "c < 256"
  shows "a div 4 < 64" "a mod 4 * 16 + b div 16 < 64" "b mod 16 * 4 + c div 64 < 64" "c mod 64 < 64"
    "a mod 4 * 16 < 64" "b mod 16 * 4 < 64"
  using assms by arith+

lemma octet_rebuild:
  fixes a b c :: nat
  assumes "a < 256" "b < 256" "c < 256"
  shows "a div 4 * 4 + (a mod 4 * 16 + b div 16) div 16 = a"
    "(a mod 4 * 16 + b div 16) mod 16 * 16 + (b mod 16 * 4 + c div 64) div 4 = b"
    "(b mod 16 * 4 + c div 64) mod 4 * 64 + c mod 64 = c"
    "a div 4 * 4 + (a mod 4 * 16) div 16 = a"
    "(a mod 4 * 16 + b div 16) mod 16 * 16 + (b mod 16 * 4) div 4 = b"
  using assms by simp_all

lemma decode_quantum3:
  "decodeQuanta (base64_EncodeToString (b0 # b1 # b2 # rest)) =
     (case decodeQuanta (base64_EncodeToString rest) of Inl e \<Rightarrow> Inl e | Inr bs \<Rightarrow> Inr (b0 # b1 # b2 # bs))"
proof -
  note bd = sextet_bounds [OF of_char_bound [of b0] of_char_bound [of b1] of_char_bound [of b2]]
  note rb = octet_rebuild [OF of_char_bound [of b0] of_char_bound [of b1] of_char_bound [of b2]]
  show ?thesis
    by (simp only: base64_EncodeToString.simps Let_def decodeQuanta.simps
        decodeMap_encodeChar [OF bd(1)] decodeMap_encodeChar [OF bd(2)]
        decodeMap_encodeChar [OF bd(3)] decodeMap_encodeChar [OF bd(4)]
        option.case rb char_of_char)
qed

lemma decode_quantum2:
  "decodeQuanta (base64_EncodeToString [b0, b1]) = Inr [b0, b1]"
proof -
  note bd = sextet_bounds [OF of_char_bound [of b0] of_char_bound [of b1] of_char_bound [of b1]]
  note rb = octet_rebuild [OF of_char_bound [of b0] of_char_bound [of b1] of_char_bound [of b1]]
  show ?thesis
    by (simp only: base64_EncodeToString.simps Let_def decodeQuanta.simps
        decodeMap_encodeChar [OF bd(1)] decodeMap_encodeChar [OF bd(2)]
        decodeMap_encodeChar [OF bd(6)] decodeMap_padChar
        option.case rb char_of_char simp_thms if_True)
qed

lemma decode_quantum1:
  "decodeQuanta (base64_EncodeToString [b0]) = Inr [b0]"
proof -
  note bd = sextet_bounds [OF of_char_bound [of b0] of_char_bound [of b0] of_char_bound [of b0]]
  note rb = octet_rebuild [OF of_char_bound [of b0] of_char_bound [of b0] of_char_bound [of b0]]
  show ?thesis
    by (simp only: base64_EncodeToString.simps Let_def decodeQuanta.simps
        decodeMap_encodeChar [OF bd(1)] decodeMap_encodeChar [OF bd(5)]
        decodeMap_padChar option.case rb char_of_char simp_thms if_True)
qed

lemma decodeQuanta_encode: "decodeQuanta (base64_EncodeToString bs) = Inr bs"
proof (induction bs rule: base64_EncodeToString.induct)
  case (1 b0 b1 b2 rest)
  then show ?case by (simp only: decode_quantum3 sum.case)
next
  case (2 b0 b1)
  show ?case by (rule decode_quantum2)
next
  case (3 b0)
  show ?case by (rule decode_quantum1)
next
  case 4
  show ?case by simp
qed

lemma encode_alphabet: "set (base64_EncodeToString bs) \<subseteq> insert padChar (set encodeStd)"
  by (induction bs rule: base64_EncodeToString.induct) (simp_all add: Let_def encodeChar_mem)

lemma encode_no_newline:
  "filter (\<lambda>c. c \<noteq> CHR 0x0A \<and> c \<noteq> CHR 0x0D) (base64_EncodeToString bs) = base64_EncodeToString bs"
proof -
  have "\<forall>c \<in> set (base64_EncodeToString bs). c \<noteq> CHR 0x0A \<and> c \<noteq> CHR 0x0D"
    using encode_alphabet [of bs] encodeStd_excludes by (auto simp: padChar_def)
  then show ?thesis by simp
qed

lemma base64Decode_base64Encode: "base64Decode (base64Encode s) = Inr s"
  by (simp add: base64Decode_def base64Encode_def base64_DecodeString_def encode_no_newline
      decodeQuanta_encode)

lemma decodeQuanta_length_aux:
  "(case decodeQuanta s of Inl e \<Rightarrow> True | Inr bs \<Rightarrow> length bs \<le> length s)"
proof (induction s rule: decodeQuanta.induct)
  case 1
  show ?case by simp
next
  case (2 c0 c1 c2 c3 rest)
  show ?case
  proof (cases "\<exists>v0 v1 v2 v3. decodeMap c0 = Some v0 \<and> decodeMap c1 = Some v1 \<and>
      decodeMap c2 = Some v2 \<and> decodeMap c3 = Some v3")
    case True
    then obtain v0 v1 v2 v3 where v: "decodeMap c0 = Some v0" "decodeMap c1 = Some v1"
      "decodeMap c2 = Some v2" "decodeMap c3 = Some v3" by blast
    from "2.IH" [OF v] show ?thesis
      by (simp add: v split: sum.splits)
  next
    case False
    then show ?thesis
      by (auto split: option.splits)
  qed
qed simp_all

lemma decodeQuanta_length: "decodeQuanta s = Inr bs \<Longrightarrow> length bs \<le> length s"
  using decodeQuanta_length_aux [of s] by simp

lemma base64Decode_length: "base64Decode s = Inr bs \<Longrightarrow> length bs \<le> length s"
proof -
  assume "base64Decode s = Inr bs"
  then have "decodeQuanta (filter (\<lambda>c. c \<noteq> CHR 0x0A \<and> c \<noteq> CHR 0x0D) s) = Inr bs"
    by (simp add: base64Decode_def base64_DecodeString_def split: sum.splits)
  then have "length bs \<le> length (filter (\<lambda>c. c \<noteq> CHR 0x0A \<and> c \<noteq> CHR 0x0D) s)"
    by (rule decodeQuanta_length)
  also have "\<dots> \<le> length s" by (rule length_filter_le)
  finally show ?thesis .
qed

subsection \<open>Facts about \<open>strings.Index\<close>\<close>

lemma strings_Index_bound:
  "strings_Index s substr = Some i \<Longrightarrow> i + length substr \<le> length s"
proof (induction s arbitrary: i)
  case Nil
  then show ?case by (simp split: if_splits)
next
  case (Cons c cs)
  show ?case
  proof (cases "prefix substr (c # cs)")
    case True
    with Cons.prems have "i = 0" by simp
    with prefix_length_le [OF True] show ?thesis by simp
  next
    case False
    with Cons.prems obtain j where j: "strings_Index cs substr = Some j" "i = Suc j"
      by auto
    from Cons.IH [OF j(1)] j(2) show ?thesis by simp
  qed
qed

lemma strings_Index_prefix: "prefix substr s \<Longrightarrow> strings_Index s substr = Some 0"
  by (cases s) auto

lemma strings_Index_None_iff: "strings_Index s substr = None \<longleftrightarrow> \<not> sublist substr s"
  by (induction s) (auto simp: sublist_Cons_right)

lemma strings_Index_None_appendD:
  assumes "strings_Index (x @ y @ z) substr = None"
  shows "strings_Index x substr = None"
  using assms unfolding strings_Index_None_iff
  by (metis sublist_order.dual_order.trans sublist_append_rightI)

lemma overlap_head:
  assumes "c \<notin> set sub'" "u \<noteq> []" "prefix (c # sub') (u @ c # sub' @ r)"
  shows "prefix (c # sub') u"
proof -
  from assms(3) consider "prefix (c # sub') u"
    | us where "c # sub' = u @ us" "prefix us (c # sub' @ r)"
    by (auto simp: prefix_append)
  then show ?thesis
  proof cases
    case 1
    then show ?thesis .
  next
    case 2
    from 2(1) assms(2) obtain u' where u: "u = c # u'" "sub' = u' @ us"
      by (cases u) auto
    show ?thesis
    proof (cases us)
      case Nil
      with 2(1) show ?thesis by simp
    next
      case (Cons x us')
      with 2(2) have "x = c" by simp
      with Cons u(2) assms(1) show ?thesis by simp
    qed
  qed
qed

lemma overlap_last:
  assumes "c \<notin> set p'" "u \<noteq> []" "prefix (p' @ [c]) (u @ p' @ c # r)"
  shows "prefix (p' @ [c]) u"
proof -
  from assms(3) consider "prefix (p' @ [c]) u"
    | us where "p' @ [c] = u @ us" "prefix us (p' @ c # r)"
    by (auto simp: prefix_append)
  then show ?thesis
  proof cases
    case 1
    then show ?thesis .
  next
    case 2
    show ?thesis
    proof (cases us rule: rev_cases)
      case Nil
      with 2(1) show ?thesis by simp
    next
      case (snoc us' x)
      with 2(1) have p': "p' = u @ us'" and x: "x = c" by auto
      from 2(2) snoc x obtain zs where zs: "p' @ c # r = (us' @ [c]) @ zs"
        by (auto simp: prefix_def)
      from p' assms(2) have lt: "length us' < length p'" by (cases u) auto
      from zs have "(p' @ c # r) ! length us' = ((us' @ [c]) @ zs) ! length us'" by simp
      with lt have "p' ! length us' = c" by (simp add: nth_append)
      with lt assms(1) show ?thesis by (metis nth_mem)
    qed
  qed
qed

lemma strings_Index_first_head:
  assumes "c \<notin> set sub'" "strings_Index x (c # sub') = None"
  shows "strings_Index (x @ c # sub' @ r) (c # sub') = Some (length x)"
  using assms(2)
proof (induction x)
  case Nil
  show ?case by simp
next
  case (Cons y ys)
  from Cons.prems have np: "\<not> prefix (c # sub') (y # ys)" and n: "strings_Index ys (c # sub') = None"
    by (auto split: if_splits)
  from overlap_head [OF assms(1), of "y # ys" r] np
  have "\<not> prefix (c # sub') ((y # ys) @ c # sub' @ r)" by blast
  with Cons.IH [OF n] show ?case by simp
qed

lemma strings_Index_first_last:
  assumes "c \<notin> set p'" "strings_Index x (p' @ [c]) = None"
  shows "strings_Index (x @ (p' @ [c]) @ r) (p' @ [c]) = Some (length x)"
  using assms(2)
proof (induction x)
  case Nil
  show ?case by (simp add: strings_Index_prefix)
next
  case (Cons y ys)
  from Cons.prems have np: "\<not> prefix (p' @ [c]) (y # ys)" and n: "strings_Index ys (p' @ [c]) = None"
    by (auto split: if_splits)
  from overlap_last [OF assms(1), of "y # ys" r] np
  have "\<not> prefix (p' @ [c]) ((y # ys) @ p' @ c # r)" by blast
  with Cons.IH [OF n] show ?case by simp
qed

subsection \<open>\<open>DecodeKittyTextSizeMarkers\<close>, lines 419 to 453\<close>

text \<open>
  The loop of the Go function is the recursion: each round looks for the first opening
  sentinel in \<open>result\<close> and for the first closing sentinel from there on
  (\<open>strings.Index(result[startIdx:], markerSuffix)\<close>, so \<open>endIdx0\<close> counts from
  \<open>startIdx\<close>), and stops when either is missing. The slice
  \<open>result[b64Start:endIdx]\<close> panics in Go when \<open>b64Start > endIdx\<close>. Termination:
  every round makes \<open>result\<close> shorter.
\<close>

definition markerPrefix :: string where
  "markerPrefix = ''KITTY_TEXT_SIZE:''"

definition markerSuffix :: string where
  "markerSuffix = '':END_KITTY_TEXT_SIZE''"

function DecodeKittyTextSizeMarkers :: "string \<Rightarrow> panic + string" where
  "DecodeKittyTextSizeMarkers result =
     (case strings_Index result markerPrefix of
        None \<Rightarrow> Inr result
      | Some startIdx \<Rightarrow>
     (case strings_Index (drop startIdx result) markerSuffix of
        None \<Rightarrow> Inr result
      | Some endIdx0 \<Rightarrow>
          (let endIdx = endIdx0 + startIdx;
               b64Start = startIdx + length markerPrefix
           in if endIdx < b64Start then Inl (SliceBoundsOutOfRange b64Start endIdx)
              else (case base64Decode (take (endIdx - b64Start) (drop b64Start result)) of
                      Inl err \<Rightarrow>
                        DecodeKittyTextSizeMarkers
                          (take startIdx result @ drop (endIdx + length markerSuffix) result)
                    | Inr decoded \<Rightarrow>
                        DecodeKittyTextSizeMarkers
                          (take startIdx result @ decoded @
                           drop (endIdx + length markerSuffix) result)))))"
  by pat_completeness auto
termination
proof (relation "measure length", goal_cases)
  case 1
  show ?case by simp
next
  case (2 result startIdx endIdx0 endIdx b64Start err)
  from strings_Index_bound [OF 2(1)] strings_Index_bound [OF 2(2)] 2(3-)
  show ?case by (simp add: markerPrefix_def markerSuffix_def)
next
  case (3 result startIdx endIdx0 endIdx b64Start decoded)
  from strings_Index_bound [OF 3(1)] strings_Index_bound [OF 3(2)] 3(3-5)
    base64Decode_length [OF 3(6)]
  show ?case by (simp add: markerPrefix_def markerSuffix_def)
qed

declare DecodeKittyTextSizeMarkers.simps [simp del]

lemma markerPrefix_first:
  assumes "strings_Index a markerPrefix = None"
  shows "strings_Index (a @ markerPrefix @ r) markerPrefix = Some (length a)"
proof -
  have eq: "markerPrefix = ''KITTY_TEXT_SIZE'' @ [CHR '':'']" by (simp add: markerPrefix_def)
  have "CHR '':'' \<notin> set ''KITTY_TEXT_SIZE''" by simp
  from strings_Index_first_last [OF this, of a r] assms show ?thesis
    unfolding eq by simp
qed

lemma markerSuffix_first:
  assumes "strings_Index x markerSuffix = None"
  shows "strings_Index (x @ markerSuffix @ r) markerSuffix = Some (length x)"
proof -
  have eq: "markerSuffix = CHR '':'' # ''END_KITTY_TEXT_SIZE''" by (simp add: markerSuffix_def)
  have "CHR '':'' \<notin> set ''END_KITTY_TEXT_SIZE''" by simp
  from strings_Index_first_head [OF this, of x r] assms show ?thesis
    unfolding eq by simp
qed

lemma DecodeKittyTextSizeMarkers_span:
  assumes a: "strings_Index a markerPrefix = None"
    and m: "strings_Index (markerPrefix @ mid) markerSuffix = None"
  shows "DecodeKittyTextSizeMarkers (a @ markerPrefix @ mid @ markerSuffix @ b) =
    (case base64Decode mid of
       Inl err \<Rightarrow> DecodeKittyTextSizeMarkers (a @ b)
     | Inr decoded \<Rightarrow> DecodeKittyTextSizeMarkers (a @ decoded @ b))"
proof -
  have i1: "strings_Index (a @ markerPrefix @ mid @ markerSuffix @ b) markerPrefix = Some (length a)"
    by (rule markerPrefix_first [OF a])
  have i2: "strings_Index (markerPrefix @ mid @ markerSuffix @ b) markerSuffix
      = Some (length markerPrefix + length mid)"
    using markerSuffix_first [OF m, of b] by simp
  show ?thesis
    by (subst DecodeKittyTextSizeMarkers.simps) (simp add: i1 i2 Let_def split: sum.split)
qed

lemma DecodeKittyTextSizeMarkers_none:
  "strings_Index s markerPrefix = None \<Longrightarrow> DecodeKittyTextSizeMarkers s = Inr s"
  by (subst DecodeKittyTextSizeMarkers.simps) simp

lemma DecodeKittyTextSizeMarkers_unterminated:
  assumes a: "strings_Index a markerPrefix = None"
    and r: "strings_Index (markerPrefix @ r) markerSuffix = None"
  shows "DecodeKittyTextSizeMarkers (a @ markerPrefix @ r) = Inr (a @ markerPrefix @ r)"
proof -
  have i1: "strings_Index (a @ markerPrefix @ r) markerPrefix = Some (length a)"
    by (rule markerPrefix_first [OF a])
  show ?thesis
    by (subst DecodeKittyTextSizeMarkers.simps) (simp add: i1 r)
qed

lemma encode_no_markerSuffix:
  "strings_Index (markerPrefix @ base64Encode s) markerSuffix = None"
proof -
  have ex: "CHR '':'' \<notin> set (base64Encode s)" "CHR ''_'' \<notin> set (base64Encode s)"
    using encode_alphabet [of s] encodeStd_excludes
    by (auto simp: base64Encode_def padChar_def)
  have 1: "\<not> prefix ''END_KITTY_TEXT_SIZE'' (base64Encode s)"
  proof
    assume "prefix ''END_KITTY_TEXT_SIZE'' (base64Encode s)"
    from set_mono_prefix [OF this] ex(2) show False by simp
  qed
  have 2: "strings_Index (base64Encode s) '':END_KITTY_TEXT_SIZE'' = None"
    unfolding strings_Index_None_iff
  proof
    assume "sublist '':END_KITTY_TEXT_SIZE'' (base64Encode s)"
    from set_mono_sublist [OF this] ex(1) show False by simp
  qed
  show ?thesis
    by (simp add: markerPrefix_def markerSuffix_def 1 2)
qed

subsection \<open>Metadata of the OSC 66 sequence, lines 41 to 84 and 238 to 243\<close>

text \<open>The zero value \<open>StylePrimitive{}\<close>: every pointer \<open>nil\<close>, every string empty.\<close>

definition zeroStylePrimitive :: StylePrimitive where
  "zeroStylePrimitive =
     \<lparr>BlockPrefix = [], BlockSuffix = [], Prefix = [], PrefixColor = None, Suffix = [],
      Color = None, BackgroundColor = None, Underline = None, Bold = None, Upper = None,
      Lower = None, Title = None, Italic = None, CrossedOut = None, Faint = None,
      Conceal = None, Overlined = None, Inverse = None, Blink = None, Format = [],
      KittyScale = None, KittyWidth = None, KittyNumerator = None, KittyDenominator = None,
      KittyVAlign = None, KittyHAlign = None\<rparr>"

definition hasKittyTextSizing :: "StylePrimitive \<Rightarrow> bool" where
  "hasKittyTextSizing rules \<longleftrightarrow>
     KittyScale rules \<noteq> None \<or>
     KittyWidth rules \<noteq> None \<or>
     KittyNumerator rules \<noteq> None \<or>
     KittyDenominator rules \<noteq> None"

text \<open>
  \<open>fmt.Sprintf("%d", v)\<close> of an unsigned value: its decimal digits, most significant
  first, no sign and no leading zero.
\<close>

definition digit :: "nat \<Rightarrow> char" where
  "digit d = ''0123456789'' ! (d mod 10)"

fun FormatUint :: "nat \<Rightarrow> string" where
  "FormatUint n = (if n < 10 then [digit n] else FormatUint (n div 10) @ [digit (n mod 10)])"

declare FormatUint.simps [simp del]

text \<open>\<open>strings.Join(parts, sep)\<close>.\<close>

fun strings_Join :: "string list \<Rightarrow> string \<Rightarrow> string" where
  "strings_Join [] sep = []"
| "strings_Join [x] sep = x"
| "strings_Join (x # y # ys) sep = x @ sep @ strings_Join (y # ys) sep"

text \<open>
  \<open>buildKittyMetadata\<close>: \<open>kittyMetadataParts\<close> is the slice \<open>parts\<close> when line 83 is
  reached. Each \<open>if\<close> appends its token or nothing; the comparisons are the unsigned ones
  of \<open>uint\<close>.
\<close>

definition kittyMetadataParts :: "StylePrimitive \<Rightarrow> string list" where
  "kittyMetadataParts rules =
     (let parts = [];
          parts = parts @
            (case KittyScale rules of
               Some v \<Rightarrow> if 1 < v \<and> v \<le> 7 then [''s='' @ FormatUint (unat v)] else []
             | None \<Rightarrow> []);
          parts = parts @
            (case KittyWidth rules of
               Some v \<Rightarrow> if v \<le> 7 then [''w='' @ FormatUint (unat v)] else []
             | None \<Rightarrow> []);
          parts = parts @
            (case KittyNumerator rules of
               Some v \<Rightarrow> if v \<le> 15 then [''n='' @ FormatUint (unat v)] else []
             | None \<Rightarrow> []);
          parts = parts @
            (case KittyDenominator rules of
               Some v \<Rightarrow> if v \<le> 15 then [''d='' @ FormatUint (unat v)] else []
             | None \<Rightarrow> []);
          parts = parts @
            (case KittyVAlign rules of
               Some v \<Rightarrow> if v \<le> 2 then [''v='' @ FormatUint (unat v)] else []
             | None \<Rightarrow> []);
          parts = parts @
            (case KittyHAlign rules of
               Some v \<Rightarrow> if v \<le> 2 then [''h='' @ FormatUint (unat v)] else []
             | None \<Rightarrow> [])
      in parts)"

definition buildKittyMetadata :: "StylePrimitive \<Rightarrow> string" where
  "buildKittyMetadata rules = strings_Join (kittyMetadataParts rules) '':''"

text \<open>
  \<open>GetKittyScaleRows\<close>: the conversion \<open>int(*rules.KittyScale)\<close> and the subtraction
  wrap around in 64 bits, which is \<open>sint (v - 1)\<close>.
\<close>

definition GetKittyScaleRows :: "StylePrimitive \<Rightarrow> int" where
  "GetKittyScaleRows rules =
     (case KittyScale rules of
        Some v \<Rightarrow> if 1 < v then sint (v - 1) else 0
      | None \<Rightarrow> 0)"

text \<open>
  The tokens of a metadata string, to state which keys it holds: its pieces between
  colons, as \<open>strings.Split(meta, ":")\<close> gives them.
\<close>

fun metadataTokens :: "string \<Rightarrow> string list" where
  "metadataTokens [] = [[]]"
| "metadataTokens (c # cs) =
     (if c = CHR '':'' then [] # metadataTokens cs
      else (case metadataTokens cs of t # ts \<Rightarrow> (c # t) # ts | [] \<Rightarrow> [[c]]))"

lemma digit_mem: "digit d \<in> set ''0123456789''"
  unfolding digit_def by (rule nth_mem) simp

lemma FormatUint_digits: "set (FormatUint n) \<subseteq> set ''0123456789''"
proof (induction n rule: FormatUint.induct)
  case (1 n)
  show ?case
  proof (cases "n < 10")
    case True
    then show ?thesis using digit_mem [of n] by (subst FormatUint.simps) simp
  next
    case False
    with 1 digit_mem [of "n mod 10"] show ?thesis by (subst FormatUint.simps) simp
  qed
qed

lemma FormatUint_no_colon: "CHR '':'' \<notin> set (FormatUint n)"
  using FormatUint_digits [of n] by auto

lemma metadataTokens_nonempty: "metadataTokens s \<noteq> []"
  by (induction s) (auto split: list.splits)

lemma metadataTokens_single: "CHR '':'' \<notin> set x \<Longrightarrow> metadataTokens x = [x]"
  by (induction x) auto

lemma metadataTokens_append:
  "CHR '':'' \<notin> set x \<Longrightarrow> metadataTokens (x @ CHR '':'' # s) = x # metadataTokens s"
  by (induction x) auto

lemma metadataTokens_Join:
  "parts \<noteq> [] \<Longrightarrow> \<forall>p \<in> set parts. CHR '':'' \<notin> set p \<Longrightarrow>
     metadataTokens (strings_Join parts '':'') = parts"
proof (induction parts "'':''" rule: strings_Join.induct)
  case 1
  then show ?case by simp
next
  case (2 x)
  then show ?case by (simp add: metadataTokens_single)
next
  case (3 x y ys)
  then show ?case by (simp add: metadataTokens_append)
qed

lemma kittyPart_mem:
  assumes "tok \<in> set (case x of Some v \<Rightarrow> if P v then [k @ FormatUint (unat v)] else [] | None \<Rightarrow> [])"
  shows "\<exists>v. x = Some v \<and> P v \<and> tok = k @ FormatUint (unat v)"
  using assms by (cases x) (auto split: if_splits)

lemma kittyMetadataParts_cases:
  assumes "tok \<in> set (kittyMetadataParts rules)"
  shows "(\<exists>v. KittyScale rules = Some v \<and> 1 < v \<and> v \<le> 7 \<and> tok = ''s='' @ FormatUint (unat v)) \<or>
     (\<exists>v. KittyWidth rules = Some v \<and> v \<le> 7 \<and> tok = ''w='' @ FormatUint (unat v)) \<or>
     (\<exists>v. KittyNumerator rules = Some v \<and> v \<le> 15 \<and> tok = ''n='' @ FormatUint (unat v)) \<or>
     (\<exists>v. KittyDenominator rules = Some v \<and> v \<le> 15 \<and> tok = ''d='' @ FormatUint (unat v)) \<or>
     (\<exists>v. KittyVAlign rules = Some v \<and> v \<le> 2 \<and> tok = ''v='' @ FormatUint (unat v)) \<or>
     (\<exists>v. KittyHAlign rules = Some v \<and> v \<le> 2 \<and> tok = ''h='' @ FormatUint (unat v))"
proof -
  from assms consider
    (s) "tok \<in> set (case KittyScale rules of
            Some v \<Rightarrow> if 1 < v \<and> v \<le> 7 then [''s='' @ FormatUint (unat v)] else [] | None \<Rightarrow> [])"
  | (w) "tok \<in> set (case KittyWidth rules of
            Some v \<Rightarrow> if v \<le> 7 then [''w='' @ FormatUint (unat v)] else [] | None \<Rightarrow> [])"
  | (n) "tok \<in> set (case KittyNumerator rules of
            Some v \<Rightarrow> if v \<le> 15 then [''n='' @ FormatUint (unat v)] else [] | None \<Rightarrow> [])"
  | (d) "tok \<in> set (case KittyDenominator rules of
            Some v \<Rightarrow> if v \<le> 15 then [''d='' @ FormatUint (unat v)] else [] | None \<Rightarrow> [])"
  | (v) "tok \<in> set (case KittyVAlign rules of
            Some v \<Rightarrow> if v \<le> 2 then [''v='' @ FormatUint (unat v)] else [] | None \<Rightarrow> [])"
  | (h) "tok \<in> set (case KittyHAlign rules of
            Some v \<Rightarrow> if v \<le> 2 then [''h='' @ FormatUint (unat v)] else [] | None \<Rightarrow> [])"
    unfolding kittyMetadataParts_def Let_def set_append Un_iff append_Nil by blast
  then show ?thesis
  proof cases
    case s
    from kittyPart_mem [OF s] show ?thesis by blast
  next
    case w
    from kittyPart_mem [OF w] show ?thesis by blast
  next
    case n
    from kittyPart_mem [OF n] show ?thesis by blast
  next
    case d
    from kittyPart_mem [OF d] show ?thesis by blast
  next
    case v
    from kittyPart_mem [OF v] show ?thesis by blast
  next
    case h
    from kittyPart_mem [OF h] show ?thesis by blast
  qed
qed

lemma kittyMetadataParts_no_colon:
  "tok \<in> set (kittyMetadataParts rules) \<Longrightarrow> CHR '':'' \<notin> set tok"
  using kittyMetadataParts_cases [of tok rules] FormatUint_no_colon by auto

lemma metadataTokens_buildKittyMetadata:
  "tok \<in> set (metadataTokens (buildKittyMetadata rules)) \<Longrightarrow>
     tok = [] \<or> tok \<in> set (kittyMetadataParts rules)"
proof (cases "kittyMetadataParts rules = []")
  case True
  assume "tok \<in> set (metadataTokens (buildKittyMetadata rules))"
  with True show ?thesis by (simp add: buildKittyMetadata_def)
next
  case False
  assume t: "tok \<in> set (metadataTokens (buildKittyMetadata rules))"
  from False have "metadataTokens (buildKittyMetadata rules) = kittyMetadataParts rules"
    unfolding buildKittyMetadata_def
    by (rule metadataTokens_Join) (simp add: kittyMetadataParts_no_colon)
  with t show ?thesis by simp
qed

subsection \<open>The capability probe, lines 246 to 361\<close>

datatype KittyTextSizingCapability =
  KittyTextSizingNone | KittyTextSizingWidth | KittyTextSizingFull

text \<open>
  What the terminal does during one probe: whether standard output is a terminal, the
  error of \<open>makeRaw\<close> if any, and the result of each of the three calls of
  \<open>readCPR\<close>, an error (a failed read or the timeout) or the row and column of the
  report. The columns are Go \<open>int\<close>s read by \<open>Sscanf\<close> from the digits of the report,
  so they are not negative and their differences do not overflow; they are \<open>int\<close> here.
\<close>

record terminal =
  isTerminal :: bool
  makeRaw :: "error option"
  readCPR1 :: "error + int \<times> int"
  readCPR2 :: "error + int \<times> int"
  readCPR3 :: "error + int \<times> int"

definition DetectKittyTextSizing :: "terminal \<Rightarrow> KittyTextSizingCapability \<times> error option" where
  "DetectKittyTextSizing t =
     (if \<not> isTerminal t then (KittyTextSizingNone, None)
      else
     (case makeRaw t of
        Some err \<Rightarrow> (KittyTextSizingNone, Some (Wrapped ''failed to set raw mode'' err))
      | None \<Rightarrow>
     (case readCPR1 t of
        Inl err \<Rightarrow> (KittyTextSizingNone, Some err)
      | Inr (row1, col1) \<Rightarrow>
     (case readCPR2 t of
        Inl err \<Rightarrow> (KittyTextSizingNone, Some err)
      | Inr (row2, col2) \<Rightarrow>
     (case readCPR3 t of
        Inl err \<Rightarrow> (KittyTextSizingNone, Some err)
      | Inr (row3, col3) \<Rightarrow>
          if col2 = col1 then (KittyTextSizingNone, None)
          else
            (let widthSupported = (col2 - col1 = 2);
                 scaleSupported = (col3 - col2 = 2)
             in if widthSupported \<and> scaleSupported then (KittyTextSizingFull, None)
                else if widthSupported then (KittyTextSizingWidth, None)
                else (KittyTextSizingNone, None)))))))"

section \<open>The rendering context\<close>

text \<open>
  \<open>cascadeStyle\<close> and \<open>cascadeStyles\<close>, style.go lines 151 to 157 and 281 to 295.
\<close>

definition zeroStyleBlock :: StyleBlock where
  "zeroStyleBlock =
     \<lparr>StylePrimitive = zeroStylePrimitive, Indent = None, IndentToken = None, Margin = None\<rparr>"

definition cascadeStyle :: "StyleBlock \<Rightarrow> StyleBlock \<Rightarrow> bool \<Rightarrow> StyleBlock" where
  "cascadeStyle parent child toBlock =
     (let s = child;
          s = s\<lparr>StylePrimitive :=
                 cascadeStylePrimitive (StylePrimitive parent) (StylePrimitive child) toBlock\<rparr>;
          s = s\<lparr>Indent := (if toBlock then Indent parent else Indent s),
                Margin := (if toBlock then Margin parent else Margin s)\<rparr>;
          s = s\<lparr>Indent := (if Indent child \<noteq> None then Indent child else Indent s)\<rparr>
      in s)"

definition cascadeStyles :: "StyleBlock list \<Rightarrow> StyleBlock" where
  "cascadeStyles s = foldl (\<lambda>r v. cascadeStyle r v True) zeroStyleBlock s"

text \<open>
  A block stack entry: the bytes in its buffer and its style. The stack is the list of
  its entries, the top one last. The fields of \<open>StyleConfig\<close> are the ones the modelled
  functions read.
\<close>

record BlockElement =
  Block :: string
  Style :: StyleBlock

type_synonym BlockStack = "BlockElement list"

datatype Profile = TrueColor | ANSI256 | ANSI | Ascii

record StyleConfig =
  Heading :: StyleBlock
  H1 :: StyleBlock
  H2 :: StyleBlock
  H3 :: StyleBlock
  H4 :: StyleBlock
  H5 :: StyleBlock
  H6 :: StyleBlock
  Image :: StylePrimitive
  ImageText :: StylePrimitive

record Options =
  ColorProfile :: Profile
  Styles :: StyleConfig
  WordWrap :: nat

text \<open>
  \<open>KittyImageConfig\<close>, kitty\_image.go lines 13 to 16: \<open>ImageCache\<close> is a function
  value, \<open>nil\<close> when no lookup is configured; it maps a URL to the image id, the columns,
  the rows and whether the image exists.
\<close>

record KittyImageConfig =
  Enabled :: bool
  ImageCache :: "(string \<Rightarrow> 32 word \<times> int \<times> int \<times> bool) option"

record RenderContext =
  blockStack :: BlockStack
  options :: Options
  kittyImageConfig :: "KittyImageConfig option"

definition zeroBlockElement :: BlockElement where
  "zeroBlockElement = \<lparr>Block = [], Style = zeroStyleBlock\<rparr>"

text \<open>
  Modelled from the spec: the block stack operations, whose file is not among the
  sources. Section 4.2: \<open>push(entry)\<close>; \<open>current()\<close> is the top; \<open>parent()\<close> is the
  second from the top, and a root entry always exists, so it never underflows (here: an
  empty entry where the stack has none); \<open>pop()\<close> removes the top; \<open>width(ctx)\<close> is
  the configured total width minus the sum of the indents and margins of the entries.
\<close>

definition BlockStack_Push :: "BlockStack \<Rightarrow> BlockElement \<Rightarrow> BlockStack" where
  "BlockStack_Push bs e = bs @ [e]"

definition BlockStack_Current :: "BlockStack \<Rightarrow> BlockElement" where
  "BlockStack_Current bs = (if bs = [] then zeroBlockElement else last bs)"

definition BlockStack_Parent :: "BlockStack \<Rightarrow> BlockElement" where
  "BlockStack_Parent bs = (if length bs < 2 then zeroBlockElement else bs ! (length bs - 2))"

definition BlockStack_Pop :: "BlockStack \<Rightarrow> BlockStack" where
  "BlockStack_Pop bs = butlast bs"

definition BlockStack_Width :: "BlockStack \<Rightarrow> RenderContext \<Rightarrow> nat" where
  "BlockStack_Width bs ctx =
     WordWrap (options ctx) -
       (\<Sum>e \<leftarrow> bs. (case Indent (Style e) of Some i \<Rightarrow> unat i | None \<Rightarrow> 0) +
                 (case Margin (Style e) of Some m \<Rightarrow> unat m | None \<Rightarrow> 0))"

text \<open>
  The write \<open>bs.Current().Block\<close> of a renderer into the top entry's buffer, and
  \<open>bs.Current().Block.Reset()\<close>.
\<close>

definition setCurrentBlock :: "BlockStack \<Rightarrow> string \<Rightarrow> BlockStack" where
  "setCurrentBlock bs b = (if bs = [] then bs else butlast bs @ [(last bs)\<lparr>Block := b\<rparr>])"

text \<open>
  The functions the modelled code calls and the sources do not hold, as parameters: the
  casers of \<open>golang.org/x/text/cases\<close>; of \<open>termenv\<close>, the escape sequence of
  \<open>p.Color(c)\<close> as foreground (\<open>False\<close>) or background (\<open>True\<close>), \<open>None\<close> when the
  colour is \<open>nil\<close>, and \<open>Style.String()\<close> as a function of the attribute sequences and
  the text; parsing and executing a \<open>text/template\<close>; the word-wrap writer of
  \<open>reflow\<close> (the error of \<open>Write\<close>, the error of \<open>Close\<close> and the wrapped bytes, for
  a limit and the bytes written); and of this repository \<open>MarginWriter\<close> (the bytes its
  \<open>Write\<close> passes on to the underlying writer, and its error), \<open>resolveRelativeURL\<close>
  and \<open>BlockStack.With\<close>.
\<close>

record library =
  cases_Upper :: "string \<Rightarrow> string"
  cases_Lower :: "string \<Rightarrow> string"
  cases_Title :: "string \<Rightarrow> string"
  Profile_Color :: "Profile \<Rightarrow> string \<Rightarrow> bool \<Rightarrow> string option"
  Style_Styled :: "string list \<Rightarrow> string \<Rightarrow> string"
  template_Parse :: "string \<Rightarrow> error option"
  template_Execute :: "string \<Rightarrow> string \<Rightarrow> string \<times> error option"
  wordwrap_Write :: "nat \<Rightarrow> string \<Rightarrow> error option"
  wordwrap_Close :: "nat \<Rightarrow> string \<Rightarrow> error option"
  wordwrap_Bytes :: "nat \<Rightarrow> string \<Rightarrow> string"
  MarginWriter_Write :: "RenderContext \<Rightarrow> StyleBlock \<Rightarrow> string \<Rightarrow> string \<times> error option"
  resolveRelativeURL :: "string \<Rightarrow> string \<Rightarrow> string"
  BlockStack_With :: "BlockStack \<Rightarrow> StylePrimitive \<Rightarrow> StylePrimitive"

section \<open>Rendering a token (ansi/baseelement.go)\<close>

text \<open>
  A \<open>termenv.Style\<close>: the text and the attribute sequences set so far. Each attribute
  method appends its sequence; \<open>Foreground\<close> and \<open>Background\<close> append nothing for a
  \<open>nil\<close> colour.
\<close>

record termenv_Style =
  str :: string
  styles :: "string list"

definition termenv_String :: "string \<Rightarrow> termenv_Style" where
  "termenv_String s = \<lparr>str = s, styles = []\<rparr>"

definition Style_add :: "string \<Rightarrow> termenv_Style \<Rightarrow> termenv_Style" where
  "Style_add sq out = out\<lparr>styles := styles out @ [sq]\<rparr>"

definition Style_Color :: "string option \<Rightarrow> termenv_Style \<Rightarrow> termenv_Style" where
  "Style_Color c out = (case c of Some sq \<Rightarrow> Style_add sq out | None \<Rightarrow> out)"

definition Style_String :: "library \<Rightarrow> termenv_Style \<Rightarrow> string" where
  "Style_String L out = Style_Styled L (styles out) (str out)"

text \<open>
  \<open>renderText\<close>, lines 38 to 82, in its two groups of statements. Lines 43 to 52: the
  three case transforms, each an \<open>if\<close> of its own that replaces \<open>out\<close> by the
  transformed \<open>s\<close>. A guard \<open>rules.Upper != nil && *rules.Upper\<close> is
  \<open>Upper rules = Some True\<close>.
\<close>

definition transformCase :: "library \<Rightarrow> StylePrimitive \<Rightarrow> string \<Rightarrow> termenv_Style" where
  "transformCase L rules s =
     (let out = termenv_String s;
          out = (if Upper rules = Some True then termenv_String (cases_Upper L s) else out);
          out = (if Lower rules = Some True then termenv_String (cases_Lower L s) else out);
          out = (if Title rules = Some True then termenv_String (cases_Title L s) else out)
      in out)"

text \<open>Lines 53 to 79: colours and decorations, in the order of the source.\<close>

definition applyStyles :: "library \<Rightarrow> Profile \<Rightarrow> StylePrimitive \<Rightarrow> termenv_Style \<Rightarrow> termenv_Style" where
  "applyStyles L p rules out0 =
     (let out = out0;
          out = (case Color rules of
                   Some c \<Rightarrow> Style_Color (Profile_Color L p c False) out | None \<Rightarrow> out);
          out = (case BackgroundColor rules of
                   Some c \<Rightarrow> Style_Color (Profile_Color L p c True) out | None \<Rightarrow> out);
          out = (if Underline rules = Some True then Style_add ''4'' out else out);
          out = (if Bold rules = Some True then Style_add ''1'' out else out);
          out = (if Italic rules = Some True then Style_add ''3'' out else out);
          out = (if CrossedOut rules = Some True then Style_add ''9'' out else out);
          out = (if Overlined rules = Some True then Style_add ''53'' out else out);
          out = (if Inverse rules = Some True then Style_add ''7'' out else out);
          out = (if Blink rules = Some True then Style_add ''5'' out else out)
      in out)"

text \<open>
  The writer \<open>w\<close> is the bytes written to it so far; \<open>renderText\<close> drops the error of
  its write, and the model's writes succeed.
\<close>

definition renderText :: "library \<Rightarrow> string \<Rightarrow> Profile \<Rightarrow> StylePrimitive \<Rightarrow> string \<Rightarrow> string" where
  "renderText L w p rules s =
     (if length s = 0 then w
      else w @ Style_String L (applyStyles L p rules (transformCase L rules s)))"

text \<open>\<open>formatToken\<close>, lines 23 to 36: the bytes executed so far and the error.\<close>

definition formatToken :: "library \<Rightarrow> string \<Rightarrow> string \<Rightarrow> string \<times> error option" where
  "formatToken L format token =
     (case template_Parse L format of
        Some err \<Rightarrow> ([], Some (Wrapped ''glamour: error parsing template'' err))
      | None \<Rightarrow> template_Execute L format token)"

text \<open>
  \<open>escapeReplacer\<close>, lines 142 to 161: every pair of a backslash and one of the listed
  characters becomes that character, scanning from the left.
\<close>

definition escapable :: string where
  "escapable = [CHR 0x5C, CHR 0x60] @ ''*_{}[]<>()#+-.!|''"

fun escapeReplacer_Replace :: "string \<Rightarrow> string" where
  "escapeReplacer_Replace (c # d # rest) =
     (if c = CHR 0x5C \<and> d \<in> set escapable then d # escapeReplacer_Replace rest
      else c # escapeReplacer_Replace (d # rest))"
| "escapeReplacer_Replace cs = cs"

record BaseElement =
  Token :: string
  Prefix' :: string
  Suffix' :: string
  Style' :: StylePrimitive

text \<open>
  \<open>doRender\<close>, lines 101 to 139. The two deferred calls run when the function returns,
  the last deferred first, also on the error return of line 133.
\<close>

definition doRender ::
  "library \<Rightarrow> string \<Rightarrow> Profile \<Rightarrow> BaseElement \<Rightarrow> StylePrimitive \<Rightarrow> StylePrimitive
     \<Rightarrow> string \<times> error option" where
  "doRender L w0 p e st1 st2 =
     (let prefixStyle = st1\<lparr>Color := PrefixColor st1\<rparr>;
          w = renderText L w0 p prefixStyle (Prefix' e);
          blockPrefixStyle = st1\<lparr>Color := PrefixColor st1\<rparr>;
          w = renderText L w p blockPrefixStyle (BlockPrefix st2);
          w = renderText L w p st2 (Prefix st2);
          (s, err) = (if length (Format st2) > 0 then formatToken L (Format st2) (Token e)
                      else (Token e, None));
          w = (if err = None then renderText L w p st2 (escapeReplacer_Replace s) else w);
          w = renderText L w p st2 (Suffix st2);
          w = renderText L w p blockPrefixStyle (BlockSuffix st2)
      in (w, err))"

text \<open>\<open>BaseElement.Render\<close>, lines 94 to 99.\<close>

definition BaseElement_Render ::
  "library \<Rightarrow> string \<Rightarrow> RenderContext \<Rightarrow> BaseElement \<Rightarrow> string \<times> error option" where
  "BaseElement_Render L w ctx e =
     (let bs = blockStack ctx;
          st1 = StylePrimitive (Style (BlockStack_Current bs));
          st2 = BlockStack_With L bs (Style' e)
      in doRender L w (ColorProfile (options ctx)) e st1 st2)"

section \<open>Scaled text (ansi/kitty\_text\_sizing.go, lines 86 to 233 and 390 to 401)\<close>

text \<open>
  \<open>applyANSIStyles\<close>: lines 91 to 117 are the statements of \<open>renderText\<close> lines 53 to
  79, then \<open>Faint\<close>.
\<close>

definition applyANSIStyles :: "library \<Rightarrow> Profile \<Rightarrow> StylePrimitive \<Rightarrow> string \<Rightarrow> string" where
  "applyANSIStyles L p rules s =
     (let out = termenv_String s;
          out = applyStyles L p rules out;
          out = (if Faint rules = Some True then Style_add ''2'' out else out)
      in Style_String L out)"

definition resetSeq :: string where
  "resetSeq = [CHR 0x1B] @ ''[0m''"

text \<open>
  \<open>buildANSIWrapper\<close>: the same attributes on the empty text, cut at the reset
  sequence.
\<close>

definition buildANSIWrapper :: "library \<Rightarrow> Profile \<Rightarrow> StylePrimitive \<Rightarrow> string \<times> string" where
  "buildANSIWrapper L p rules =
     (let styled = applyANSIStyles L p rules []
      in if length styled > 0
         then (case strings_Index styled resetSeq of
                 Some idx \<Rightarrow> (take idx styled, resetSeq)
               | None \<Rightarrow> ([], []))
         else ([], []))"

definition buildOSC66Output :: "library \<Rightarrow> Profile \<Rightarrow> StylePrimitive \<Rightarrow> string \<Rightarrow> string" where
  "buildOSC66Output L p rules txt =
     (let meta = buildKittyMetadata rules
      in if meta = [] then applyANSIStyles L p rules txt
         else (let (pre, suf) = buildANSIWrapper L p rules
               in pre @ [CHR 0x1B] @ '']66;'' @ meta @ '';'' @ txt @ [CHR 0x07] @ suf))"

text \<open>
  \<open>StripANSI\<close>, lines 173 to 180: every match of \<open>ESC [ [0-9;]* m\<close> is removed, from
  the left. The class holds no \<open>m\<close>, so a match at an \<open>ESC [\<close> takes all the digits and
  semicolons that follow and needs an \<open>m\<close> right after them.
\<close>

definition isParam :: "char \<Rightarrow> bool" where
  "isParam c \<longleftrightarrow> c \<in> set ''0123456789;''"

function StripANSI :: "string \<Rightarrow> string" where
  "StripANSI [] = []"
| "StripANSI (c # cs) =
     (if c = CHR 0x1B \<and> cs \<noteq> [] \<and> hd cs = CHR ''[''
         \<and> dropWhile isParam (tl cs) \<noteq> [] \<and> hd (dropWhile isParam (tl cs)) = CHR ''m''
      then StripANSI (tl (dropWhile isParam (tl cs)))
      else c # StripANSI cs)"
  by pat_completeness auto
termination
proof (relation "measure length", goal_cases)
  case 1
  show ?case by simp
next
  case (2 c cs)
  have "length (dropWhile isParam (tl cs)) \<le> length (tl cs)"
    by (rule length_dropWhile_le)
  then show ?case by simp
next
  case (3 c cs)
  show ?case by simp
qed

section \<open>Headings (ansi/heading.go)\<close>

record HeadingElement =
  Level :: int
  First :: bool

text \<open>
  \<open>HeadingElement.Render\<close>, lines 28 to 60. The block stack of the context is reached
  through a pointer, so the function returns the context with the new stack next to the
  writer.
\<close>

definition HeadingElement_Render ::
  "library \<Rightarrow> string \<Rightarrow> RenderContext \<Rightarrow> HeadingElement
     \<Rightarrow> (string \<times> RenderContext) \<times> error option" where
  "HeadingElement_Render L w0 ctx e =
     (let bs = blockStack ctx;
          p = ColorProfile (options ctx);
          rules = Heading (Styles (options ctx));
          rules = (if Level e = 1 then cascadeStyles [rules, H1 (Styles (options ctx))]
                   else if Level e = 2 then cascadeStyles [rules, H2 (Styles (options ctx))]
                   else if Level e = 3 then cascadeStyles [rules, H3 (Styles (options ctx))]
                   else if Level e = 4 then cascadeStyles [rules, H4 (Styles (options ctx))]
                   else if Level e = 5 then cascadeStyles [rules, H5 (Styles (options ctx))]
                   else if Level e = 6 then cascadeStyles [rules, H6 (Styles (options ctx))]
                   else rules);
          w = (if \<not> First e
               then renderText L w0 p (StylePrimitive (Style (BlockStack_Current bs))) [CHR 0x0A]
               else w0);
          be = \<lparr>Block = [], Style = cascadeStyle (Style (BlockStack_Current bs)) rules False\<rparr>;
          bs = BlockStack_Push bs be;
          w = renderText L w p (StylePrimitive (Style (BlockStack_Parent bs)))
                (BlockPrefix (StylePrimitive rules));
          bs = setCurrentBlock bs
                 (renderText L (Block (BlockStack_Current bs)) p
                    (StylePrimitive (Style (BlockStack_Current bs))) (Prefix (StylePrimitive rules)))
      in ((w, ctx\<lparr>blockStack := bs\<rparr>), None))"

text \<open>
  \<open>HeadingElement.Finish\<close>, lines 63 to 133. \<open>enabled\<close> is what
  \<open>IsKittyTextSizingEnabled()\<close> reads from the global flag. The branch of lines 69 to
  107, without its write to the debug log file, which touches neither the writer nor the
  stack:
\<close>

definition scaledFinish :: "library \<Rightarrow> string \<Rightarrow> RenderContext \<Rightarrow> (string \<times> RenderContext) \<times> error option" where
  "scaledFinish L w0 ctx =
     (let bs = blockStack ctx;
          p = ColorProfile (options ctx);
          rules = Style (BlockStack_Current bs);
          blockContent = Block (BlockStack_Current bs);
          plainText = StripANSI blockContent;
          fullText = plainText @ Suffix (StylePrimitive rules);
          osc66Output = buildOSC66Output L p (StylePrimitive rules) fullText;
          marker = ''KITTY_TEXT_SIZE:'' @ base64Encode osc66Output @ '':END_KITTY_TEXT_SIZE'';
          w = w0 @ marker;
          w = renderText L w p (StylePrimitive (Style (BlockStack_Parent bs)))
                (BlockSuffix (StylePrimitive rules));
          extraRows = GetKittyScaleRows (StylePrimitive rules);
          w = w @ replicate (nat extraRows) (CHR 0x0A);
          bs = setCurrentBlock bs [];
          bs = BlockStack_Pop bs
      in ((w, ctx\<lparr>blockStack := bs\<rparr>), None))"

text \<open>The standard path, lines 110 to 132, with its three error returns.\<close>

definition standardFinish :: "library \<Rightarrow> string \<Rightarrow> RenderContext \<Rightarrow> (string \<times> RenderContext) \<times> error option" where
  "standardFinish L w0 ctx =
     (let bs = blockStack ctx;
          p = ColorProfile (options ctx);
          rules = Style (BlockStack_Current bs);
          limit = BlockStack_Width bs ctx;
          content = Block (BlockStack_Current bs)
      in case wordwrap_Write L limit content of
           Some err \<Rightarrow> ((w0, ctx), Some (Wrapped ''glamour: error writing bytes'' err))
         | None \<Rightarrow>
        (case wordwrap_Close L limit content of
           Some err \<Rightarrow> ((w0, ctx), Some (Wrapped ''glamour: error closing flow'' err))
         | None \<Rightarrow>
        (case MarginWriter_Write L ctx rules (wordwrap_Bytes L limit content) of
           (written, Some err) \<Rightarrow> ((w0 @ written, ctx), Some err)
         | (written, None) \<Rightarrow>
             (let w = w0 @ written;
                  w = renderText L w p (StylePrimitive (Style (BlockStack_Current bs)))
                        (Suffix (StylePrimitive rules));
                  w = renderText L w p (StylePrimitive (Style (BlockStack_Parent bs)))
                        (BlockSuffix (StylePrimitive rules));
                  bs = setCurrentBlock bs [];
                  bs = BlockStack_Pop bs
              in ((w, ctx\<lparr>blockStack := bs\<rparr>), None)))))"

definition HeadingElement_Finish ::
  "library \<Rightarrow> bool \<Rightarrow> string \<Rightarrow> RenderContext \<Rightarrow> (string \<times> RenderContext) \<times> error option" where
  "HeadingElement_Finish L enabled w ctx =
     (let bs = blockStack ctx;
          rules = Style (BlockStack_Current bs)
      in if enabled \<and> hasKittyTextSizing (StylePrimitive rules)
         then scaledFinish L w ctx
         else standardFinish L w ctx)"

section \<open>Images (\<open>ImageElement\<close> and ansi/kitty\_image.go)\<close>

text \<open>
  \<open>%d\<close> of a signed value. \<open>strings.TrimSuffix\<close>. The field \<open>Child\<close> of
  \<open>ImageElement\<close> is left out: \<open>Render\<close> does not read it.
\<close>

definition FormatInt :: "int \<Rightarrow> string" where
  "FormatInt i = (if i < 0 then CHR ''-'' # FormatUint (nat (- i)) else FormatUint (nat i))"

definition strings_TrimSuffix :: "string \<Rightarrow> string \<Rightarrow> string" where
  "strings_TrimSuffix s suf = (if suffix suf s then take (length s - length suf) s else s)"

definition kittyImageMarker :: "32 word \<Rightarrow> int \<Rightarrow> int \<Rightarrow> string" where
  "kittyImageMarker imageID cols rows =
     ''[KITTY_IMAGE:id='' @ FormatUint (unat imageID) @ '',cols='' @ FormatInt cols @
     '',rows='' @ FormatInt rows @ '']''"

record ImageElement =
  Text :: string
  BaseURL :: string
  URL :: string
  TextOnly :: bool

text \<open>
  \<open>ImageElement.Render\<close>. Lines 21 to 30: \<open>kittyLookup\<close> is the marker to write when
  the three conditions of line 21 hold and the lookup finds the image, and \<open>None\<close> when
  the function falls through to line 32. The arrow of line 35 is its three bytes in
  UTF-8.
\<close>

definition kittyLookup :: "RenderContext \<Rightarrow> ImageElement \<Rightarrow> string option" where
  "kittyLookup ctx e =
     (case kittyImageConfig ctx of
        None \<Rightarrow> None
      | Some cfg \<Rightarrow>
          if Enabled cfg \<and> ImageCache cfg \<noteq> None
          then (let (imageID, cols, rows, exists) = the (ImageCache cfg) (URL e)
                in if exists then Some (kittyImageMarker imageID cols rows) else None)
          else None)"

definition standardImage ::
  "library \<Rightarrow> string \<Rightarrow> RenderContext \<Rightarrow> ImageElement \<Rightarrow> string \<times> error option" where
  "standardImage L w0 ctx e =
     (let style = ImageText (Styles (options ctx));
          style = (if TextOnly e
                   then style\<lparr>Format := strings_TrimSuffix (Format style)
                                            [CHR 0x20, CHR 0xE2, CHR 0x86, CHR 0x92]\<rparr>
                   else style);
          (w, err) = (if length (Text e) > 0
                      then BaseElement_Render L w0 ctx
                             \<lparr>Token = Text e, Prefix' = [], Suffix' = [], Style' = style\<rparr>
                      else (w0, None))
      in if err \<noteq> None then (w, err)
         else if TextOnly e then (w, None)
         else if length (URL e) > 0
         then BaseElement_Render L w ctx
                \<lparr>Token = resolveRelativeURL L (BaseURL e) (URL e), Prefix' = '' '',
                 Suffix' = [], Style' = Image (Styles (options ctx))\<rparr>
         else (w, None))"

definition ImageElement_Render ::
  "library \<Rightarrow> string \<Rightarrow> RenderContext \<Rightarrow> ImageElement \<Rightarrow> string \<times> error option" where
  "ImageElement_Render L w ctx e =
     (case kittyLookup ctx e of
        Some marker \<Rightarrow> (w @ marker, None)
      | None \<Rightarrow> standardImage L w ctx e)"

text \<open>
  \<open>KittyImageRenderer.renderImage\<close>, kitty\_image.go lines 36 to 63: the node is an
  image node with the given destination; the result is the writer and the walk status.
\<close>

datatype WalkStatus = WalkStop | WalkSkipChildren | WalkContinue

definition renderImage ::
  "KittyImageConfig \<Rightarrow> string \<Rightarrow> string \<Rightarrow> bool \<Rightarrow> string \<times> WalkStatus \<times> error option" where
  "renderImage config w destination entering =
     (if \<not> entering then (w, WalkContinue, None)
      else if \<not> Enabled config \<or> ImageCache config = None then (w, WalkContinue, None)
      else (let url = destination;
                (imageID, cols, rows, exists) = the (ImageCache config) url
            in if \<not> exists
               then (w @ ''[IMAGE NOT IN CACHE: '' @ url @ '']'', WalkContinue, None)
               else (w @ kittyImageMarker imageID cols rows, WalkSkipChildren, None)))"

section \<open>A concrete terminal, to run the functions on\<close>

text \<open>
  An instance of the parameters, used where a theorem is applied to a concrete input:
  ASCII casers; no colours (\<open>p.Color\<close> gives \<open>nil\<close>); \<open>termenv\<close>'s \<open>Styled\<close>, which
  puts \<open>ESC [ seq m\<close> before the text and \<open>ESC [ 0 m\<close> after it when attributes are
  set; templates that replace the placeholder \<open>{{.text}}\<close>; a word-wrap writer and a
  margin writer that pass the bytes on unchanged (no line reaches the limit, no margin
  or indent is set); URLs resolved against an empty base; and \<open>With\<close> as the cascade of
  the current block's style into the child.
\<close>

definition toUpperChar :: "char \<Rightarrow> char" where
  "toUpperChar c =
     (if 97 \<le> (of_char c :: nat) \<and> (of_char c :: nat) \<le> 122 then char_of (of_char c - 32 :: nat) else c)"

definition toLowerChar :: "char \<Rightarrow> char" where
  "toLowerChar c =
     (if 65 \<le> (of_char c :: nat) \<and> (of_char c :: nat) \<le> 90 then char_of (of_char c + 32 :: nat) else c)"

definition isLetter :: "char \<Rightarrow> bool" where
  "isLetter c \<longleftrightarrow> toUpperChar c \<noteq> c \<or> toLowerChar c \<noteq> c"

fun titleFrom :: "bool \<Rightarrow> string \<Rightarrow> string" where
  "titleFrom start [] = []"
| "titleFrom start (c # cs) =
     (if isLetter c then (if start then toUpperChar c else toLowerChar c) # titleFrom False cs
      else c # titleFrom True cs)"

definition termenv_Styled :: "string list \<Rightarrow> string \<Rightarrow> string" where
  "termenv_Styled sts s =
     (if length sts = 0 then s
      else (let seq = strings_Join sts '';''
            in if seq = [] then s
               else [CHR 0x1B] @ ''['' @ seq @ ''m'' @ s @ [CHR 0x1B] @ ''[0m''))"

function substituteText :: "string \<Rightarrow> string \<Rightarrow> string" where
  "substituteText [] token = []"
| "substituteText (c # cs) token =
     (if prefix ''{{.text}}'' (c # cs) then token @ substituteText (drop 8 cs) token
      else c # substituteText cs token)"
  by pat_completeness auto
termination
  by (relation "measure (\<lambda>(format, token). length format)") auto

definition plainTerminal :: library where
  "plainTerminal =
     \<lparr>cases_Upper = map toUpperChar,
      cases_Lower = map toLowerChar,
      cases_Title = titleFrom True,
      Profile_Color = (\<lambda>p c bg. None),
      Style_Styled = termenv_Styled,
      template_Parse = (\<lambda>format. None),
      template_Execute = (\<lambda>format token. (substituteText format token, None)),
      wordwrap_Write = (\<lambda>limit b. None),
      wordwrap_Close = (\<lambda>limit b. None),
      wordwrap_Bytes = (\<lambda>limit b. b),
      MarginWriter_Write = (\<lambda>ctx rules b. (b, None)),
      resolveRelativeURL = (\<lambda>base url. url),
      BlockStack_With = (\<lambda>bs child.
        StylePrimitive (cascadeStyle (Style (BlockStack_Current bs))
          \<lparr>StylePrimitive = child, Indent = None, IndentToken = None, Margin = None\<rparr> False))\<rparr>"

text \<open>
  A context in the middle of a heading: the document's root entry below the heading's
  entry, which has the style \<open>st\<close> and the bytes \<open>buffered\<close> in its buffer.
\<close>

definition zeroStyleConfig :: StyleConfig where
  "zeroStyleConfig =
     \<lparr>Heading = zeroStyleBlock, H1 = zeroStyleBlock, H2 = zeroStyleBlock, H3 = zeroStyleBlock,
      H4 = zeroStyleBlock, H5 = zeroStyleBlock, H6 = zeroStyleBlock,
      Image = zeroStylePrimitive, ImageText = zeroStylePrimitive\<rparr>"

definition inHeading :: "StylePrimitive \<Rightarrow> string \<Rightarrow> RenderContext" where
  "inHeading st buffered =
     \<lparr>blockStack =
        [zeroBlockElement,
         \<lparr>Block = buffered, Style = zeroStyleBlock\<lparr>StylePrimitive := st\<rparr>\<rparr>],
      options = \<lparr>ColorProfile = TrueColor, Styles = zeroStyleConfig, WordWrap = 80\<rparr>,
      kittyImageConfig = None\<rparr>"

section \<open>Properties of the style cascade\<close>

text \<open>
  Claim C1. For every parent, child and \<open>toBlock\<close>, each optional colour (color,
  background), each of the nine boolean decorations, each of the three case transforms
  and each of the six scaling parameters of the merged style is the parent's value when
  the child leaves the field unset and the child's value when the child sets it, an
  explicit \<open>Some False\<close> included. The function is a pure HOL function of its three
  arguments: it has no state to change and gives one result for one input.
\<close>

theorem cascadeStylePrimitive_inherits:
  "(let r = cascadeStylePrimitive parent child toBlock in
     Color r = inherit (Color parent) (Color child) \<and>
     BackgroundColor r = inherit (BackgroundColor parent) (BackgroundColor child) \<and>
     Bold r = inherit (Bold parent) (Bold child) \<and>
     Italic r = inherit (Italic parent) (Italic child) \<and>
     Underline r = inherit (Underline parent) (Underline child) \<and>
     CrossedOut r = inherit (CrossedOut parent) (CrossedOut child) \<and>
     Overlined r = inherit (Overlined parent) (Overlined child) \<and>
     Inverse r = inherit (Inverse parent) (Inverse child) \<and>
     Blink r = inherit (Blink parent) (Blink child) \<and>
     Faint r = inherit (Faint parent) (Faint child) \<and>
     Conceal r = inherit (Conceal parent) (Conceal child) \<and>
     Upper r = inherit (Upper parent) (Upper child) \<and>
     Lower r = inherit (Lower parent) (Lower child) \<and>
     Title r = inherit (Title parent) (Title child) \<and>
     KittyScale r = inherit (KittyScale parent) (KittyScale child) \<and>
     KittyWidth r = inherit (KittyWidth parent) (KittyWidth child) \<and>
     KittyNumerator r = inherit (KittyNumerator parent) (KittyNumerator child) \<and>
     KittyDenominator r = inherit (KittyDenominator parent) (KittyDenominator child) \<and>
     KittyVAlign r = inherit (KittyVAlign parent) (KittyVAlign child) \<and>
     KittyHAlign r = inherit (KittyHAlign parent) (KittyHAlign child))"
  unfolding Let_def
  by (simp only: cascade_Color cascade_BackgroundColor cascade_Bold cascade_Italic cascade_Underline cascade_CrossedOut cascade_Overlined cascade_Inverse cascade_Blink cascade_Faint cascade_Conceal cascade_Upper cascade_Lower cascade_Title cascade_KittyScale cascade_KittyWidth cascade_KittyNumerator cascade_KittyDenominator cascade_KittyVAlign cascade_KittyHAlign simp_thms)

theorem cascadeStylePrimitive_inherits_witness:
  "Bold (cascadeStylePrimitive
           (zeroStylePrimitive\<lparr>Bold := Some True, Italic := Some True, KittyScale := Some 3\<rparr>)
           (zeroStylePrimitive\<lparr>Bold := Some False, KittyScale := Some 2\<rparr>) False) = Some False \<and>
   Italic (cascadeStylePrimitive
           (zeroStylePrimitive\<lparr>Bold := Some True, Italic := Some True, KittyScale := Some 3\<rparr>)
           (zeroStylePrimitive\<lparr>Bold := Some False, KittyScale := Some 2\<rparr>) False) = Some True \<and>
   KittyScale (cascadeStylePrimitive
           (zeroStylePrimitive\<lparr>Bold := Some True, Italic := Some True, KittyScale := Some 3\<rparr>)
           (zeroStylePrimitive\<lparr>Bold := Some False, KittyScale := Some 2\<rparr>) False) = Some 2"
  using cascadeStylePrimitive_inherits
      [of "zeroStylePrimitive\<lparr>Bold := Some True, Italic := Some True, KittyScale := Some 3\<rparr>"
          "zeroStylePrimitive\<lparr>Bold := Some False, KittyScale := Some 2\<rparr>" False]
  by (simp add: Let_def inherit_def zeroStylePrimitive_def)

lemma cascade_BlockPrefix:
  "BlockPrefix (cascadeStylePrimitive parent child toBlock) =
     (if BlockPrefix child \<noteq> [] then BlockPrefix child else if toBlock then BlockPrefix parent else BlockPrefix child)"
  by (simp add: cascade_defs)

lemma cascade_BlockSuffix:
  "BlockSuffix (cascadeStylePrimitive parent child toBlock) =
     (if BlockSuffix child \<noteq> [] then BlockSuffix child else if toBlock then BlockSuffix parent else BlockSuffix child)"
  by (simp add: cascade_defs)

lemma cascade_Prefix:
  "Prefix (cascadeStylePrimitive parent child toBlock) =
     (if Prefix child \<noteq> [] then Prefix child else if toBlock then Prefix parent else Prefix child)"
  by (simp add: cascade_defs)

lemma cascade_Suffix:
  "Suffix (cascadeStylePrimitive parent child toBlock) =
     (if Suffix child \<noteq> [] then Suffix child else if toBlock then Suffix parent else Suffix child)"
  by (simp add: cascade_defs)

lemma cascade_Format: "Format (cascadeStylePrimitive parent child toBlock) = Format child"
  by (simp add: cascade_defs)

lemma cascade_PrefixColor:
  "PrefixColor (cascadeStylePrimitive parent child toBlock) = PrefixColor child"
  by (simp add: cascade_defs)

text \<open>
  Claim C10, as stated, fails in its last clause: the template is not the only attribute
  that does not cascade. No statement of the function assigns \<open>PrefixColor\<close>, a
  \<open>*string\<close> like the two colours, so a parent's prefix colour is not inherited by a
  child that sets none, whatever \<open>toBlock\<close> is.
\<close>

theorem cascadeStylePrimitive_PrefixColor_counterexample:
  "PrefixColor (cascadeStylePrimitive
      (zeroStylePrimitive\<lparr>PrefixColor := Some ''63''\<rparr>) zeroStylePrimitive True) = None \<and>
   PrefixColor (cascadeStylePrimitive
      (zeroStylePrimitive\<lparr>PrefixColor := Some ''63''\<rparr>) zeroStylePrimitive False) = None"
  by (simp add: cascade_PrefixColor zeroStylePrimitive_def)

text \<open>
  Claim C10, amended. For every parent, child and \<open>toBlock\<close> the template of the
  merged style is the child's: the parent's template is never inherited, not even when
  the child's is empty and \<open>toBlock\<close> is true. The prefix colour is the second attribute
  that does not cascade: it is the child's too. Every other field cascades: the twenty
  optional attributes resolve to the child's value when set and the parent's otherwise,
  and the four framing texts resolve to the child's when not empty, else to the parent's
  when \<open>toBlock\<close> is true and to the child's empty text when it is false.
\<close>

theorem cascadeStylePrimitive_Format:
  "(let r = cascadeStylePrimitive parent child toBlock in
     Format r = Format child \<and>
     PrefixColor r = PrefixColor child \<and>
     BlockPrefix r = (if BlockPrefix child \<noteq> [] then BlockPrefix child else if toBlock then BlockPrefix parent else BlockPrefix child) \<and>
     BlockSuffix r = (if BlockSuffix child \<noteq> [] then BlockSuffix child else if toBlock then BlockSuffix parent else BlockSuffix child) \<and>
     Prefix r = (if Prefix child \<noteq> [] then Prefix child else if toBlock then Prefix parent else Prefix child) \<and>
     Suffix r = (if Suffix child \<noteq> [] then Suffix child else if toBlock then Suffix parent else Suffix child) \<and>
     Color r = inherit (Color parent) (Color child) \<and>
     BackgroundColor r = inherit (BackgroundColor parent) (BackgroundColor child) \<and>
     Bold r = inherit (Bold parent) (Bold child) \<and>
     Italic r = inherit (Italic parent) (Italic child) \<and>
     Underline r = inherit (Underline parent) (Underline child) \<and>
     CrossedOut r = inherit (CrossedOut parent) (CrossedOut child) \<and>
     Overlined r = inherit (Overlined parent) (Overlined child) \<and>
     Inverse r = inherit (Inverse parent) (Inverse child) \<and>
     Blink r = inherit (Blink parent) (Blink child) \<and>
     Faint r = inherit (Faint parent) (Faint child) \<and>
     Conceal r = inherit (Conceal parent) (Conceal child) \<and>
     Upper r = inherit (Upper parent) (Upper child) \<and>
     Lower r = inherit (Lower parent) (Lower child) \<and>
     Title r = inherit (Title parent) (Title child) \<and>
     KittyScale r = inherit (KittyScale parent) (KittyScale child) \<and>
     KittyWidth r = inherit (KittyWidth parent) (KittyWidth child) \<and>
     KittyNumerator r = inherit (KittyNumerator parent) (KittyNumerator child) \<and>
     KittyDenominator r = inherit (KittyDenominator parent) (KittyDenominator child) \<and>
     KittyVAlign r = inherit (KittyVAlign parent) (KittyVAlign child) \<and>
     KittyHAlign r = inherit (KittyHAlign parent) (KittyHAlign child))"
  unfolding Let_def
  by (simp only: cascade_Format cascade_PrefixColor cascade_BlockPrefix cascade_BlockSuffix cascade_Prefix cascade_Suffix cascade_Color cascade_BackgroundColor cascade_Bold cascade_Italic cascade_Underline cascade_CrossedOut cascade_Overlined cascade_Inverse cascade_Blink cascade_Faint cascade_Conceal cascade_Upper cascade_Lower cascade_Title cascade_KittyScale cascade_KittyWidth cascade_KittyNumerator cascade_KittyDenominator cascade_KittyVAlign cascade_KittyHAlign simp_thms)

theorem cascadeStylePrimitive_Format_witness:
  "Format (cascadeStylePrimitive
      (zeroStylePrimitive\<lparr>Format := ''{{.text}} >'', Suffix := ''!''\<rparr>) zeroStylePrimitive True) = [] \<and>
   Suffix (cascadeStylePrimitive
      (zeroStylePrimitive\<lparr>Format := ''{{.text}} >'', Suffix := ''!''\<rparr>) zeroStylePrimitive True) = ''!''"
  using cascadeStylePrimitive_Format
      [of "zeroStylePrimitive\<lparr>Format := ''{{.text}} >'', Suffix := ''!''\<rparr>" zeroStylePrimitive True]
  by (simp add: Let_def zeroStylePrimitive_def)

section \<open>Properties of the marker decoding pass\<close>

text \<open>
  Claim C2, as stated, fails: the pass takes the leftmost opening sentinel, so an opening
  sentinel in the text before the marker pairs with the marker's closing sentinel, and the
  whole span, the wrapped text with it, is dropped as undecodable (first conjunct). The
  pass also scans its own output again, so a wrapped text that holds a sentinel pair of
  its own is decoded a second time (second conjunct).
\<close>

theorem DecodeKittyTextSizeMarkers_roundtrip_counterexample:
  "DecodeKittyTextSizeMarkers
     (''KITTY_TEXT_SIZE:'' @ markerPrefix @ base64Encode ''x'' @ markerSuffix @ ''y'')
     \<noteq> Inr (''KITTY_TEXT_SIZE:'' @ ''x'' @ ''y'') \<and>
   DecodeKittyTextSizeMarkers
     ('''' @ markerPrefix @ base64Encode ''KITTY_TEXT_SIZE::END_KITTY_TEXT_SIZE'' @ markerSuffix @ '''')
     \<noteq> Inr ('''' @ ''KITTY_TEXT_SIZE::END_KITTY_TEXT_SIZE'' @ '''')"
  by code_simp

text \<open>
  Claim C2, amended: when the opening sentinel \<open>KITTY_TEXT_SIZE:\<close> occurs nowhere in
  \<open>a @ s @ b\<close>, decoding \<open>a\<close>, the wrapped \<open>s\<close> and \<open>b\<close> gives exactly
  \<open>a @ s @ b\<close>, for every byte string \<open>s\<close>: colons, semicolons and control bytes
  included.
\<close>

theorem DecodeKittyTextSizeMarkers_roundtrip:
  assumes "strings_Index (a @ s @ b) markerPrefix = None"
  shows "DecodeKittyTextSizeMarkers (a @ markerPrefix @ base64Encode s @ markerSuffix @ b)
    = Inr (a @ s @ b)"
proof -
  from assms have a: "strings_Index a markerPrefix = None"
    by (rule strings_Index_None_appendD)
  show ?thesis
    by (simp add: DecodeKittyTextSizeMarkers_span [OF a encode_no_markerSuffix]
        base64Decode_base64Encode DecodeKittyTextSizeMarkers_none [OF assms])
qed

theorem DecodeKittyTextSizeMarkers_roundtrip_witness:
  "strings_Index (''see: '' @ [CHR '':'', CHR '';'', CHR 0x1B, CHR 0x07, CHR ''a''] @ ''; end'')
     markerPrefix = None \<and>
   DecodeKittyTextSizeMarkers
     (''see: '' @ markerPrefix @ base64Encode [CHR '':'', CHR '';'', CHR 0x1B, CHR 0x07, CHR ''a'']
        @ markerSuffix @ ''; end'')
     = Inr (''see: '' @ [CHR '':'', CHR '';'', CHR 0x1B, CHR 0x07, CHR ''a''] @ ''; end'')"
proof -
  have h: "strings_Index (''see: '' @ [CHR '':'', CHR '';'', CHR 0x1B, CHR 0x07, CHR ''a''] @ ''; end'')
     markerPrefix = None"
    by (simp add: markerPrefix_def)
  from h DecodeKittyTextSizeMarkers_roundtrip [OF h] show ?thesis by simp
qed

text \<open>
  Claim C7, as stated, fails for the unterminated sentinel: the loop stops at an opening
  sentinel that no closing sentinel follows and returns the text as it is, the opening
  sentinel and what follows it still in place.
\<close>

theorem DecodeKittyTextSizeMarkers_unterminated_counterexample:
  "DecodeKittyTextSizeMarkers ''aKITTY_TEXT_SIZE:aGVsbG8=b'' = Inr ''aKITTY_TEXT_SIZE:aGVsbG8=b''"
  by code_simp

text \<open>
  The closing sentinel is searched from the start of the opening sentinel, and the two
  share the colon. Content that holds no closing sentinel and does not begin with
  \<open>END_KITTY_TEXT_SIZE\<close> is content in which that search finds nothing.
\<close>

lemma markerSuffix_not_in_span:
  assumes "strings_Index mid markerSuffix = None" "\<not> prefix ''END_KITTY_TEXT_SIZE'' mid"
  shows "strings_Index (markerPrefix @ mid) markerSuffix = None"
  using assms by (simp add: markerPrefix_def markerSuffix_def)

text \<open>
  Claim C7, amended. Let the text \<open>a\<close> before an opening sentinel hold no opening
  sentinel. A span whose content \<open>mid\<close> is not valid base64, holds no closing sentinel
  and does not begin with \<open>END_KITTY_TEXT_SIZE\<close> is removed, sentinels and content, and
  the pass goes on with the text around it: the result is the result of the pass on
  \<open>a @ b\<close>. An opening sentinel followed by a text \<open>r\<close> that holds no closing sentinel
  and does not begin with \<open>END_KITTY_TEXT_SIZE\<close> is left in the output as it is, with
  \<open>r\<close>. Content that begins with \<open>END_KITTY_TEXT_SIZE\<close> is outside this statement.
\<close>

theorem DecodeKittyTextSizeMarkers_decode_failure:
  "(strings_Index a markerPrefix = None \<and>
    strings_Index mid markerSuffix = None \<and>
    \<not> prefix ''END_KITTY_TEXT_SIZE'' mid \<and>
    isl (base64Decode mid) \<longrightarrow>
      DecodeKittyTextSizeMarkers (a @ markerPrefix @ mid @ markerSuffix @ b)
        = DecodeKittyTextSizeMarkers (a @ b)) \<and>
   (strings_Index a markerPrefix = None \<and>
    strings_Index r markerSuffix = None \<and>
    \<not> prefix ''END_KITTY_TEXT_SIZE'' r \<longrightarrow>
      DecodeKittyTextSizeMarkers (a @ markerPrefix @ r) = Inr (a @ markerPrefix @ r))"
proof (intro conjI impI)
  assume h: "strings_Index a markerPrefix = None \<and>
    strings_Index mid markerSuffix = None \<and>
    \<not> prefix ''END_KITTY_TEXT_SIZE'' mid \<and> isl (base64Decode mid)"
  then have m: "strings_Index (markerPrefix @ mid) markerSuffix = None"
    by (simp add: markerSuffix_not_in_span)
  from h obtain err where "base64Decode mid = Inl err"
    by (cases "base64Decode mid") auto
  with h m show "DecodeKittyTextSizeMarkers (a @ markerPrefix @ mid @ markerSuffix @ b)
        = DecodeKittyTextSizeMarkers (a @ b)"
    by (simp add: DecodeKittyTextSizeMarkers_span)
next
  assume h: "strings_Index a markerPrefix = None \<and>
    strings_Index r markerSuffix = None \<and> \<not> prefix ''END_KITTY_TEXT_SIZE'' r"
  then have "strings_Index (markerPrefix @ r) markerSuffix = None"
    by (simp add: markerSuffix_not_in_span)
  with h show "DecodeKittyTextSizeMarkers (a @ markerPrefix @ r) = Inr (a @ markerPrefix @ r)"
    by (simp add: DecodeKittyTextSizeMarkers_unterminated)
qed

theorem DecodeKittyTextSizeMarkers_decode_failure_witness:
  "DecodeKittyTextSizeMarkers (''one '' @ markerPrefix @ ''a?b'' @ markerSuffix @ '' two'')
     = Inr ''one  two'' \<and>
   DecodeKittyTextSizeMarkers (''one '' @ markerPrefix @ ''aGVsbG8= two'')
     = Inr (''one '' @ markerPrefix @ ''aGVsbG8= two'')"
proof -
  have a: "strings_Index ''one '' markerPrefix = None"
    by (simp add: markerPrefix_def)
  have m: "strings_Index ''a?b'' markerSuffix = None"
    by (simp add: markerSuffix_def)
  have p: "\<not> prefix ''END_KITTY_TEXT_SIZE'' ''a?b''"
    by simp
  have d: "isl (base64Decode ''a?b'')"
    by code_simp
  have r: "strings_Index ''aGVsbG8= two'' markerSuffix = None"
    by (simp add: markerSuffix_def)
  have q: "\<not> prefix ''END_KITTY_TEXT_SIZE'' ''aGVsbG8= two''"
    by simp
  have n: "DecodeKittyTextSizeMarkers (''one '' @ '' two'') = Inr ''one  two''"
    by code_simp
  from DecodeKittyTextSizeMarkers_decode_failure
         [of "''one ''" "''a?b''" "'' two''" "''aGVsbG8= two''"] a m p d r q n
  show ?thesis by simp
qed

text \<open>
  On content that begins with \<open>END_KITTY_TEXT_SIZE\<close> the closing sentinel is found at
  the colon of the opening sentinel, one byte before the content starts, and the slice
  \<open>result[b64Start:endIdx]\<close> panics, whatever follows: the pass does not return.
\<close>

lemma DecodeKittyTextSizeMarkers_early_suffix:
  assumes "strings_Index a markerPrefix = None"
    and i2: "strings_Index (markerPrefix @ t) markerSuffix = Some 15"
  shows "DecodeKittyTextSizeMarkers (a @ markerPrefix @ t)
     = Inl (SliceBoundsOutOfRange (length a + 16) (length a + 15))"
proof -
  have i1: "strings_Index (a @ markerPrefix @ t) markerPrefix = Some (length a)"
    by (rule markerPrefix_first [OF assms(1)])
  have len: "length markerPrefix = 16"
    by (simp add: markerPrefix_def)
  show ?thesis
    by (subst DecodeKittyTextSizeMarkers.simps) (simp add: i1 i2 Let_def len)
qed

lemma DecodeKittyTextSizeMarkers_overlap_panics:
  assumes "strings_Index a markerPrefix = None"
  shows "DecodeKittyTextSizeMarkers (a @ markerPrefix @ ''END_KITTY_TEXT_SIZE'' @ rest)
     = Inl (SliceBoundsOutOfRange (length a + 16) (length a + 15))"
proof -
  have "strings_Index (markerPrefix @ ''END_KITTY_TEXT_SIZE'' @ rest) markerSuffix = Some 15"
    by (simp add: markerPrefix_def markerSuffix_def)
  with assms show ?thesis
    by (rule DecodeKittyTextSizeMarkers_early_suffix)
qed

lemma DecodeKittyTextSizeMarkers_overlap_panics_example:
  "DecodeKittyTextSizeMarkers
     ''one KITTY_TEXT_SIZE:END_KITTY_TEXT_SIZE:END_KITTY_TEXT_SIZE two''
     = Inl (SliceBoundsOutOfRange 20 19)"
  by code_simp

section \<open>Properties of the OSC 66 metadata\<close>

text \<open>
  The bounds that \<open>buildKittyMetadata\<close> tests: every token of the metadata string that
  starts with one of the six keys comes from a field that is set and lies in the numeric
  range of that key (\<open>s\<close> from 2 to 7, \<open>w\<close> up to 7, \<open>n\<close> and \<open>d\<close> up to 15, \<open>v\<close>
  and \<open>h\<close> up to 2), and carries that field's value in decimal. A value outside the
  range gives no token and no error: the function is total.
\<close>

lemma buildKittyMetadata_keys_in_range:
  "\<forall>tok \<in> set (metadataTokens (buildKittyMetadata rules)).
     (prefix ''s='' tok \<longrightarrow> (\<exists>v. KittyScale rules = Some v \<and> 1 < v \<and> v \<le> 7 \<and> tok = ''s='' @ FormatUint (unat v))) \<and>
     (prefix ''w='' tok \<longrightarrow> (\<exists>v. KittyWidth rules = Some v \<and> v \<le> 7 \<and> tok = ''w='' @ FormatUint (unat v))) \<and>
     (prefix ''n='' tok \<longrightarrow> (\<exists>v. KittyNumerator rules = Some v \<and> v \<le> 15 \<and> tok = ''n='' @ FormatUint (unat v))) \<and>
     (prefix ''d='' tok \<longrightarrow> (\<exists>v. KittyDenominator rules = Some v \<and> v \<le> 15 \<and> tok = ''d='' @ FormatUint (unat v))) \<and>
     (prefix ''v='' tok \<longrightarrow> (\<exists>v. KittyVAlign rules = Some v \<and> v \<le> 2 \<and> tok = ''v='' @ FormatUint (unat v))) \<and>
     (prefix ''h='' tok \<longrightarrow> (\<exists>v. KittyHAlign rules = Some v \<and> v \<le> 2 \<and> tok = ''h='' @ FormatUint (unat v)))"
proof
  fix tok
  assume "tok \<in> set (metadataTokens (buildKittyMetadata rules))"
  then consider "tok = []" | "tok \<in> set (kittyMetadataParts rules)"
    using metadataTokens_buildKittyMetadata by blast
  then show "(prefix ''s='' tok \<longrightarrow> (\<exists>v. KittyScale rules = Some v \<and> 1 < v \<and> v \<le> 7 \<and> tok = ''s='' @ FormatUint (unat v))) \<and>
     (prefix ''w='' tok \<longrightarrow> (\<exists>v. KittyWidth rules = Some v \<and> v \<le> 7 \<and> tok = ''w='' @ FormatUint (unat v))) \<and>
     (prefix ''n='' tok \<longrightarrow> (\<exists>v. KittyNumerator rules = Some v \<and> v \<le> 15 \<and> tok = ''n='' @ FormatUint (unat v))) \<and>
     (prefix ''d='' tok \<longrightarrow> (\<exists>v. KittyDenominator rules = Some v \<and> v \<le> 15 \<and> tok = ''d='' @ FormatUint (unat v))) \<and>
     (prefix ''v='' tok \<longrightarrow> (\<exists>v. KittyVAlign rules = Some v \<and> v \<le> 2 \<and> tok = ''v='' @ FormatUint (unat v))) \<and>
     (prefix ''h='' tok \<longrightarrow> (\<exists>v. KittyHAlign rules = Some v \<and> v \<le> 2 \<and> tok = ''h='' @ FormatUint (unat v)))"
  proof cases
    case 1
    then show ?thesis by simp
  next
    case 2
    from kittyMetadataParts_cases [OF 2] show ?thesis
      by (elim disjE exE conjE) simp_all
  qed
qed

lemma metadataTokens_kittyMetadataParts:
  assumes "kittyMetadataParts rules \<noteq> []"
  shows "metadataTokens (buildKittyMetadata rules) = kittyMetadataParts rules"
  using assms unfolding buildKittyMetadata_def
  by (rule metadataTokens_Join) (simp add: kittyMetadataParts_no_colon)

text \<open>
  Claim C8 says that the key \<open>d\<close> is in the metadata only for a denominator greater than
  the numerator when both are set, and the comments on the field (style.go, line 66) and
  on its test (kitty\_text\_sizing.go, line 68) say that the denominator must be greater
  than the numerator. The test itself compares the denominator with 15 only: for a
  numerator up to 15 and a denominator that is not zero and not greater than the
  numerator, both keys are in the metadata.
\<close>

theorem buildKittyMetadata_denominator_unchecked:
  assumes "KittyNumerator rules = Some n" "n \<le> 15"
    and "KittyDenominator rules = Some d" "d \<noteq> 0" "d \<le> n"
  shows "(''n='' @ FormatUint (unat n)) \<in> set (metadataTokens (buildKittyMetadata rules)) \<and>
         (''d='' @ FormatUint (unat d)) \<in> set (metadataTokens (buildKittyMetadata rules))"
proof -
  from assms have d15: "d \<le> 15" by simp
  have n: "(''n='' @ FormatUint (unat n)) \<in> set (kittyMetadataParts rules)"
    using assms(1,2) by (simp add: kittyMetadataParts_def Let_def)
  have d: "(''d='' @ FormatUint (unat d)) \<in> set (kittyMetadataParts rules)"
    using assms(3) d15 by (simp add: kittyMetadataParts_def Let_def)
  from n have "kittyMetadataParts rules \<noteq> []" by auto
  from metadataTokens_kittyMetadataParts [OF this] n d show ?thesis by simp
qed

theorem buildKittyMetadata_denominator_unchecked_witness:
  "buildKittyMetadata (zeroStylePrimitive\<lparr>KittyNumerator := Some 5, KittyDenominator := Some 3\<rparr>)
     = ''n=5:d=3'' \<and>
   ''d=3'' \<in> set (metadataTokens (buildKittyMetadata
     (zeroStylePrimitive\<lparr>KittyNumerator := Some 5, KittyDenominator := Some 3\<rparr>)))"
proof -
  have m: "buildKittyMetadata
      (zeroStylePrimitive\<lparr>KittyNumerator := Some 5, KittyDenominator := Some 3\<rparr>) = ''n=5:d=3''"
    by code_simp
  have f: "FormatUint (unat (3 :: uint)) = ''3''"
    by code_simp
  have h: "KittyNumerator (zeroStylePrimitive\<lparr>KittyNumerator := Some 5, KittyDenominator := Some 3\<rparr>) = Some 5"
    "(5 :: uint) \<le> 15"
    "KittyDenominator (zeroStylePrimitive\<lparr>KittyNumerator := Some 5, KittyDenominator := Some 3\<rparr>) = Some 3"
    "(3 :: uint) \<noteq> 0" "(3 :: uint) \<le> 5"
    by simp_all
  from buildKittyMetadata_denominator_unchecked [OF h] m f show ?thesis by simp
qed

section \<open>Properties of the capability probe\<close>

text \<open>
  Claim C3. When standard output is a terminal, raw mode is set and the three cursor
  reports arrive, the probe classifies their columns: equal second and first column give
  None; a second column two past the first and a third two past the second give Full; a
  second column two past the first and any other third give WidthOnly. The witness is
  the three inputs of the claim: (5, 7, 9), (5, 5, 5) and (5, 7, 7).
\<close>

theorem DetectKittyTextSizing_classification:
  "(colB = colA \<longrightarrow>
      DetectKittyTextSizing \<lparr>isTerminal = True, makeRaw = None, readCPR1 = Inr (rowA, colA),
        readCPR2 = Inr (rowB, colB), readCPR3 = Inr (rowC, colC)\<rparr> = (KittyTextSizingNone, None)) \<and>
   (colB - colA = 2 \<and> colC - colB = 2 \<longrightarrow>
      DetectKittyTextSizing \<lparr>isTerminal = True, makeRaw = None, readCPR1 = Inr (rowA, colA),
        readCPR2 = Inr (rowB, colB), readCPR3 = Inr (rowC, colC)\<rparr> = (KittyTextSizingFull, None)) \<and>
   (colB - colA = 2 \<and> colC - colB \<noteq> 2 \<longrightarrow>
      DetectKittyTextSizing \<lparr>isTerminal = True, makeRaw = None, readCPR1 = Inr (rowA, colA),
        readCPR2 = Inr (rowB, colB), readCPR3 = Inr (rowC, colC)\<rparr> = (KittyTextSizingWidth, None))"
  by (auto simp: DetectKittyTextSizing_def)

theorem DetectKittyTextSizing_classification_witness:
  "DetectKittyTextSizing \<lparr>isTerminal = True, makeRaw = None, readCPR1 = Inr (1, 5),
      readCPR2 = Inr (1, 7), readCPR3 = Inr (1, 9)\<rparr> = (KittyTextSizingFull, None) \<and>
   DetectKittyTextSizing \<lparr>isTerminal = True, makeRaw = None, readCPR1 = Inr (1, 5),
      readCPR2 = Inr (1, 5), readCPR3 = Inr (1, 5)\<rparr> = (KittyTextSizingNone, None) \<and>
   DetectKittyTextSizing \<lparr>isTerminal = True, makeRaw = None, readCPR1 = Inr (1, 5),
      readCPR2 = Inr (1, 7), readCPR3 = Inr (1, 7)\<rparr> = (KittyTextSizingWidth, None)"
  using DetectKittyTextSizing_classification
      [where colA = 5 and colB = 7 and colC = 9 and rowA = 1 and rowB = 1 and rowC = 1]
    DetectKittyTextSizing_classification
      [where colA = 5 and colB = 5 and colC = 5 and rowA = 1 and rowB = 1 and rowC = 1]
    DetectKittyTextSizing_classification
      [where colA = 5 and colB = 7 and colC = 7 and rowA = 1 and rowB = 1 and rowC = 1]
  by simp

section \<open>Properties of token rendering\<close>

text \<open>
  Claim C6, as stated, fails: the three transforms are three separate \<open>if\<close> statements,
  each of which overwrites \<open>out\<close>, so with upper and title both true the token is
  rendered title-cased, not upper-cased.
\<close>

theorem renderText_case_counterexample:
  "renderText plainTerminal [] TrueColor
     (zeroStylePrimitive\<lparr>Upper := Some True, Title := Some True\<rparr>) ''hello world''
     = ''Hello World''"
  by code_simp

text \<open>
  Claim C6, amended: when more than one case transform is explicitly set to true, the
  transform applied is the last match in the order upper, lower, title: title if it is
  set, else lower if it is set, else upper.
\<close>

theorem renderText_case_precedence:
  assumes "s \<noteq> []"
  shows "renderText L w p rules s =
    w @ Style_String L (applyStyles L p rules (termenv_String
      (if Title rules = Some True then cases_Title L s
       else if Lower rules = Some True then cases_Lower L s
       else if Upper rules = Some True then cases_Upper L s
       else s)))"
  using assms by (simp add: renderText_def transformCase_def)

theorem renderText_case_precedence_witness:
  "renderText plainTerminal ''> '' TrueColor
     (zeroStylePrimitive\<lparr>Upper := Some True, Lower := Some True\<rparr>) ''Hello World''
     = ''> hello world''"
proof -
  have ne: "''Hello World'' \<noteq> []" by simp
  have "''> '' @ Style_String plainTerminal (applyStyles plainTerminal TrueColor
          (zeroStylePrimitive\<lparr>Upper := Some True, Lower := Some True\<rparr>)
          (termenv_String (cases_Lower plainTerminal ''Hello World''))) = ''> hello world''"
    by code_simp
  with renderText_case_precedence [OF ne, of plainTerminal "''> ''" TrueColor
      "zeroStylePrimitive\<lparr>Upper := Some True, Lower := Some True\<rparr>"]
  show ?thesis by (simp add: zeroStylePrimitive_def)
qed

section \<open>Properties of heading finalization\<close>

lemma setCurrentBlock_length: "length (setCurrentBlock bs b) = length bs"
  by (cases bs rule: rev_cases) (simp_all add: setCurrentBlock_def)

lemma BlockStack_Pop_setCurrentBlock: "BlockStack_Pop (setCurrentBlock bs b) = butlast bs"
  by (cases bs rule: rev_cases) (simp_all add: setCurrentBlock_def BlockStack_Pop_def)

lemma scaledFinish_pops:
  "scaledFinish L w ctx = ((w', ctx'), err) \<Longrightarrow> err = None \<and> blockStack ctx' = butlast (blockStack ctx)"
  by (auto simp: scaledFinish_def Let_def BlockStack_Pop_setCurrentBlock)

lemma standardFinish_exits:
  assumes "standardFinish L w ctx = ((w', ctx'), err)"
  shows "(err = None \<longrightarrow> blockStack ctx' = butlast (blockStack ctx)) \<and>
         (err \<noteq> None \<longrightarrow> ctx' = ctx)"
  using assms
  by (auto simp: standardFinish_def Let_def BlockStack_Pop_setCurrentBlock
      split: option.splits prod.splits)

text \<open>
  An invocation that returns no error has reset the buffer of the top entry and popped
  it, in both branches: the stack is the stack before without its top.
\<close>

lemma HeadingElement_Finish_success_pops:
  assumes "HeadingElement_Finish L enabled w ctx = ((w', ctx'), None)"
  shows "blockStack ctx' = butlast (blockStack ctx)"
  using assms scaledFinish_pops [of L w ctx w' ctx' None]
    standardFinish_exits [of L w ctx w' ctx' None]
  by (auto simp: HeadingElement_Finish_def Let_def split: if_splits)

text \<open>
  \<open>Render\<close> pushes one entry; a \<open>Finish\<close> without an error takes it off again, and
  the stack is the stack from before the heading.
\<close>

lemma HeadingElement_Render_pushes:
  assumes "HeadingElement_Render L w ctx e = ((w', ctx'), err)"
  shows "err = None \<and> butlast (blockStack ctx') = blockStack ctx"
  using assms
  by (auto simp: HeadingElement_Render_def Let_def setCurrentBlock_def BlockStack_Push_def)

lemma heading_stack_restored:
  assumes "HeadingElement_Render L w ctx e = ((w1, ctx1), err1)"
    and "HeadingElement_Finish L enabled w1 ctx1 = ((w2, ctx2), None)"
  shows "blockStack ctx2 = blockStack ctx"
  using HeadingElement_Render_pushes [OF assms(1)] HeadingElement_Finish_success_pops [OF assms(2)]
  by simp

text \<open>
  Claim C4 holds on the exits without an error and fails on the three error returns of
  the standard path (lines 116, 119 and 124), which come before \<open>Reset\<close> and \<open>Pop\<close>:
  an invocation that returns an error leaves the context, its block stack with the
  heading's entry and its buffer, as it was.
\<close>

theorem HeadingElement_Finish_error_exit:
  assumes "HeadingElement_Finish L enabled w ctx = ((w', ctx'), Some err)"
  shows "ctx' = ctx"
  using assms scaledFinish_pops [of L w ctx w' ctx' "Some err"]
    standardFinish_exits [of L w ctx w' ctx' "Some err"]
  by (auto simp: HeadingElement_Finish_def Let_def split: if_splits)

theorem HeadingElement_Finish_error_exit_witness:
  "HeadingElement_Finish
     (plainTerminal\<lparr>MarginWriter_Write := (\<lambda>ctx rules b. ([], Some ErrWrite))\<rparr>)
     False [] (inHeading zeroStylePrimitive ''Title'')
     = (([], inHeading zeroStylePrimitive ''Title''), Some ErrWrite) \<and>
   length (blockStack (inHeading zeroStylePrimitive ''Title'')) = 2"
proof -
  obtain w' ctx' err where r: "HeadingElement_Finish
     (plainTerminal\<lparr>MarginWriter_Write := (\<lambda>ctx rules b. ([], Some ErrWrite))\<rparr>)
     False [] (inHeading zeroStylePrimitive ''Title'') = ((w', ctx'), err)"
    by (metis surj_pair)
  have e: "snd (HeadingElement_Finish
     (plainTerminal\<lparr>MarginWriter_Write := (\<lambda>ctx rules b. ([], Some ErrWrite))\<rparr>)
     False [] (inHeading zeroStylePrimitive ''Title'')) = Some ErrWrite"
    by code_simp
  have o: "fst (fst (HeadingElement_Finish
     (plainTerminal\<lparr>MarginWriter_Write := (\<lambda>ctx rules b. ([], Some ErrWrite))\<rparr>)
     False [] (inHeading zeroStylePrimitive ''Title''))) = []"
    by code_simp
  from r e have err: "err = Some ErrWrite" by simp
  from r o have w': "w' = []" by simp
  from HeadingElement_Finish_error_exit [OF r [unfolded err]]
  have "ctx' = inHeading zeroStylePrimitive ''Title''" .
  with r err w' show ?thesis by (simp add: inHeading_def)
qed

text \<open>
  What the scaled branch writes: the marker that wraps the OSC 66 output of the buffered
  text without its escape sequences and with the style's suffix, the block suffix in the
  parent's style, and one line feed for each extra row of the scale.
\<close>

lemma renderText_append: "renderText L w p rules s = w @ renderText L [] p rules s"
  by (simp add: renderText_def)

lemma scaledFinish_output:
  "fst (fst (scaledFinish L w ctx)) =
     (let cur = BlockStack_Current (blockStack ctx);
          r = StylePrimitive (Style cur);
          p = ColorProfile (options ctx)
      in w @ markerPrefix @
         base64Encode (buildOSC66Output L p r (StripANSI (Block cur) @ Suffix r)) @
         markerSuffix @
         renderText L [] p (StylePrimitive (Style (BlockStack_Parent (blockStack ctx))))
           (BlockSuffix r) @
         replicate (nat (GetKittyScaleRows r)) (CHR 0x0A))"
  by (simp add: scaledFinish_def Let_def markerPrefix_def markerSuffix_def
      renderText_append [of L "_ @ _"])

text \<open>
  A heading with scale 2 and the flag enabled: one marker and one line feed are written,
  the marker decodes to the OSC 66 sequence of the buffered text, and the entry is
  popped.
\<close>

lemma heading_scale_2:
  "fst (fst (HeadingElement_Finish plainTerminal True []
      (inHeading (zeroStylePrimitive\<lparr>KittyScale := Some 2\<rparr>) ''Title'')))
     = ''KITTY_TEXT_SIZE:G102NjtzPTI7VGl0bGUH:END_KITTY_TEXT_SIZE'' @ [CHR 0x0A]"
  "blockStack (snd (fst (HeadingElement_Finish plainTerminal True []
      (inHeading (zeroStylePrimitive\<lparr>KittyScale := Some 2\<rparr>) ''Title''))))
     = [zeroBlockElement]"
  "snd (HeadingElement_Finish plainTerminal True []
      (inHeading (zeroStylePrimitive\<lparr>KittyScale := Some 2\<rparr>) ''Title'')) = None"
  "DecodeKittyTextSizeMarkers
     (''KITTY_TEXT_SIZE:G102NjtzPTI7VGl0bGUH:END_KITTY_TEXT_SIZE'' @ [CHR 0x0A])
     = Inr ([CHR 0x1B] @ '']66;s=2;Title'' @ [CHR 0x07, CHR 0x0A])"
  by code_simp+

text \<open>
  Claim C5 fails on a style that sets an alignment and none of scale, width, numerator
  and denominator. \<open>hasKittyTextSizing\<close>, whose comment says that it is true when any
  text sizing property is set, tests four of the six: with the flag enabled such a
  heading takes the standard word-wrap path, although \<open>buildKittyMetadata\<close> makes a key
  of the alignment.
\<close>

theorem HeadingElement_Finish_alignment_only:
  assumes "KittyScale (StylePrimitive (Style (BlockStack_Current (blockStack ctx)))) = None"
    and "KittyWidth (StylePrimitive (Style (BlockStack_Current (blockStack ctx)))) = None"
    and "KittyNumerator (StylePrimitive (Style (BlockStack_Current (blockStack ctx)))) = None"
    and "KittyDenominator (StylePrimitive (Style (BlockStack_Current (blockStack ctx)))) = None"
    and "KittyVAlign (StylePrimitive (Style (BlockStack_Current (blockStack ctx)))) \<noteq> None \<or>
         KittyHAlign (StylePrimitive (Style (BlockStack_Current (blockStack ctx)))) \<noteq> None"
  shows "HeadingElement_Finish L True w ctx = standardFinish L w ctx"
  using assms(1-4) by (simp add: HeadingElement_Finish_def hasKittyTextSizing_def Let_def)

theorem HeadingElement_Finish_alignment_only_witness:
  "fst (fst (HeadingElement_Finish plainTerminal True []
      (inHeading (zeroStylePrimitive\<lparr>KittyVAlign := Some 1\<rparr>) ''Title''))) = ''Title'' \<and>
   buildKittyMetadata (zeroStylePrimitive\<lparr>KittyVAlign := Some 1\<rparr>) = ''v=1''"
proof -
  have c: "StylePrimitive (Style (BlockStack_Current (blockStack
      (inHeading (zeroStylePrimitive\<lparr>KittyVAlign := Some 1\<rparr>) ''Title''))))
      = zeroStylePrimitive\<lparr>KittyVAlign := Some 1\<rparr>"
    by (simp add: inHeading_def BlockStack_Current_def)
  have h: "KittyScale (zeroStylePrimitive\<lparr>KittyVAlign := Some 1\<rparr>) = None"
    "KittyWidth (zeroStylePrimitive\<lparr>KittyVAlign := Some 1\<rparr>) = None"
    "KittyNumerator (zeroStylePrimitive\<lparr>KittyVAlign := Some 1\<rparr>) = None"
    "KittyDenominator (zeroStylePrimitive\<lparr>KittyVAlign := Some 1\<rparr>) = None"
    "KittyVAlign (zeroStylePrimitive\<lparr>KittyVAlign := Some 1\<rparr>) \<noteq> None \<or>
     KittyHAlign (zeroStylePrimitive\<lparr>KittyVAlign := Some 1\<rparr>) \<noteq> None"
    by (simp_all add: zeroStylePrimitive_def)
  have s: "fst (fst (standardFinish plainTerminal []
      (inHeading (zeroStylePrimitive\<lparr>KittyVAlign := Some 1\<rparr>) ''Title''))) = ''Title''"
    by code_simp
  have m: "buildKittyMetadata (zeroStylePrimitive\<lparr>KittyVAlign := Some 1\<rparr>) = ''v=1''"
    by code_simp
  from HeadingElement_Finish_alignment_only
      [of "inHeading (zeroStylePrimitive\<lparr>KittyVAlign := Some 1\<rparr>) ''Title''" plainTerminal "[]",
       unfolded c, OF h] s m
  show ?thesis by simp
qed

section \<open>Properties of image rendering\<close>

text \<open>
  \<open>ImageElement.Render\<close>, on a URL the lookup does not find, renders what it renders
  with no image configuration at all: the standard rendering of the alternative text and
  the URL.
\<close>

lemma BaseElement_Render_kittyImageConfig:
  "BaseElement_Render L w (ctx\<lparr>kittyImageConfig := x\<rparr>) e = BaseElement_Render L w ctx e"
  by (simp add: BaseElement_Render_def)

lemma standardImage_kittyImageConfig:
  "standardImage L w (ctx\<lparr>kittyImageConfig := x\<rparr>) e = standardImage L w ctx e"
  by (simp add: standardImage_def BaseElement_Render_kittyImageConfig Let_def
      split: prod.split cong: if_cong)

lemma ImageElement_Render_not_found:
  assumes "kittyImageConfig ctx = Some cfg" "ImageCache cfg = Some cache"
    and "cache (URL e) = (imageID, cols, rows, False)"
  shows "ImageElement_Render L w ctx e = ImageElement_Render L w (ctx\<lparr>kittyImageConfig := None\<rparr>) e"
  using assms
  by (simp add: ImageElement_Render_def kittyLookup_def standardImage_kittyImageConfig)

text \<open>
  Claim C9 fails on \<open>KittyImageRenderer.renderImage\<close>: with the lookup enabled and the
  URL not found it writes the notice \<open>[IMAGE NOT IN CACHE: url]\<close> before it lets the
  walk continue, where the same call with images disabled writes nothing. The comment
  on that branch says that the default renderer handles the image.
\<close>

theorem renderImage_not_found:
  assumes "Enabled config" "ImageCache config = Some cache"
    and "cache url = (imageID, cols, rows, False)"
  shows "renderImage config w url True = (w @ ''[IMAGE NOT IN CACHE: '' @ url @ '']'', WalkContinue, None)
    \<and> renderImage (config\<lparr>Enabled := False\<rparr>) w url True = (w, WalkContinue, None)"
  using assms by (simp add: renderImage_def)

theorem renderImage_not_found_witness:
  "renderImage \<lparr>Enabled = True, ImageCache = Some (\<lambda>url. (0, 0, 0, False))\<rparr> ''a cat'' ''cat.png'' True
     = (''a cat[IMAGE NOT IN CACHE: cat.png]'', WalkContinue, None) \<and>
   renderImage \<lparr>Enabled = False, ImageCache = Some (\<lambda>url. (0, 0, 0, False))\<rparr> ''a cat'' ''cat.png'' True
     = (''a cat'', WalkContinue, None)"
  using renderImage_not_found [of "\<lparr>Enabled = True, ImageCache = Some (\<lambda>url. (0, 0, 0, False))\<rparr>"
      "\<lambda>url. (0, 0, 0, False)" "''cat.png''" 0 0 0 "''a cat''"]
  by simp

end
